theory Spec2Isabelle
  imports Main "HOL-Library.Sublist"
begin

section \<open>Strings and JavaScript values\<close>

text \<open>
  The bot (\<^verbatim>\<open>index.js\<close>) is a Telegraf script. A JavaScript string is a sequence of
  UTF-16 code units; it is modelled as the list of those code units, so that the Cyrillic
  and emoji copy of the source can be written down exactly. \<open>ascii\<close> embeds an ASCII
  literal.
\<close>

type_synonym jsstring = "nat list"

definition ascii :: "string \<Rightarrow> jsstring" where
  "ascii s = map of_char s"

text \<open>
  Truthiness, as \<^verbatim>\<open>a || b\<close>, \<^verbatim>\<open>!a\<close> and \<^verbatim>\<open>a ? b : c\<close> read it: \<^verbatim>\<open>null\<close>/\<^verbatim>\<open>undefined\<close>
  (here \<open>None\<close>), the empty string and the number 0 are falsy.
\<close>

definition truthy_str :: "jsstring option \<Rightarrow> bool" where
  "truthy_str v = (case v of None \<Rightarrow> False | Some s \<Rightarrow> s \<noteq> [])"

definition truthy_num :: "int option \<Rightarrow> bool" where
  "truthy_num v = (case v of None \<Rightarrow> False | Some n \<Rightarrow> n \<noteq> 0)"

definition or_str :: "jsstring option \<Rightarrow> jsstring option \<Rightarrow> jsstring option" where
  \<comment> \<open>\<^verbatim>\<open>a || b\<close> on values that are strings or null/undefined\<close>
  "or_str a b = (if truthy_str a then a else b)"

definition nullish :: "'a option \<Rightarrow> 'a option \<Rightarrow> 'a option" where
  \<comment> \<open>\<^verbatim>\<open>a ?? b\<close>: only null/undefined fall through\<close>
  "nullish a b = (case a of None \<Rightarrow> b | Some x \<Rightarrow> Some x)"

text \<open>
  A number inside a template literal: the decimal digits of an integer (identifiers are
  integers well below \<open>10^21\<close>, where JavaScript would switch to exponent notation).
\<close>

fun dec_nat :: "nat \<Rightarrow> jsstring" where
  "dec_nat n = (if n < 10 then [48 + n] else dec_nat (n div 10) @ [48 + n mod 10])"

declare dec_nat.simps [simp del]

definition num_str :: "int \<Rightarrow> jsstring" where
  "num_str i = (if i < 0 then 45 # dec_nat (nat (- i)) else dec_nat (nat i))"

section \<open>Copy\<close>

text \<open>The constants \<^verbatim>\<open>COPY\<close>, \<^verbatim>\<open>BTN\<close> and \<^verbatim>\<open>FREQUENCY\<close>, code unit by code unit.\<close>

definition COPY_start :: jsstring where
  \<comment> \<open>COPY.start, index.js line 109\<close>
  "COPY_start =
    [1047, 1076, 1088, 1072, 1074, 1089, 1090, 1074, 1091, 1081, 1090, 1077, 46, 32, 1071, 32,
     1073, 1077, 1088, 1077, 1078, 1085, 1099, 1081, 32, 1087, 1086, 1084, 1086, 1097, 1085,
     1080, 1082, 32, 1052, 1072, 1088, 1080, 1080, 32, 1043, 1091, 1073, 1082, 1080, 1085, 1086,
     1081, 46, 32, 1045, 1089, 1083, 1080, 32, 1089, 1077, 1081, 1095, 1072, 1089, 32, 1074,
     1072, 1084, 32, 1090, 1088, 1091, 1076, 1085, 1086, 32, 1085, 1072, 1081, 1090, 1080, 32,
     1086, 1087, 1086, 1088, 1091, 32, 1080, 1083, 1080, 32, 1101, 1084, 1086, 1094, 1080, 1080,
     32, 1087, 1077, 1088, 1077, 1087, 1086, 1083, 1085, 1103, 1102, 1090, 32, 8212, 32, 1103,
     32, 1088, 1103, 1076, 1086, 1084, 46, 32, 1042, 1099, 1073, 1077, 1088, 1080, 1090, 1077,
     44, 32, 1095, 1090, 1086, 32, 1074, 1099, 32, 1095, 1091, 1074, 1089, 1090, 1074, 1091,
     1077, 1090, 1077, 32, 1087, 1088, 1103, 1084, 1086, 32, 1089, 1077, 1081, 1095, 1072, 1089,
     58]"

definition COPY_anxiety_label :: jsstring where
  \<comment> \<open>COPY.states.anxiety.label, line 113\<close>
  "COPY_anxiety_label =
    [55357, 56880, 32, 1058, 1088, 1077, 1074, 1086, 1075, 1072, 32, 47, 32, 1055, 1072, 1085,
     1080, 1082, 1072]"

definition COPY_anxiety_explain :: jsstring where
  \<comment> \<open>COPY.states.anxiety.explain, line 115\<close>
  "COPY_anxiety_explain =
    [1050, 1086, 1075, 1076, 1072, 32, 1085, 1072, 1089, 32, 1085, 1072, 1082, 1088, 1099, 1074,
     1072, 1077, 1090, 32, 1074, 1086, 1083, 1085, 1072, 32, 1090, 1088, 1077, 1074, 1086, 1075,
     1080, 44, 32, 1084, 1086, 1079, 1075, 32, 1085, 1072, 1095, 1080, 1085, 1072, 1077, 1090,
     32, 1088, 1072, 1073, 1086, 1090, 1072, 1090, 1100, 32, 1074, 32, 1088, 1077, 1078, 1080,
     1084, 1077, 32, 1082, 1072, 1090, 1072, 1089, 1090, 1088, 1086, 1092, 1080, 1079, 1072,
     1094, 1080, 1080, 46, 32, 1054, 1085, 32, 34, 1087, 1088, 1086, 1082, 1088, 1091, 1095,
     1080, 1074, 1072, 1077, 1090, 34, 32, 1093, 1091, 1076, 1096, 1080, 1077, 32, 1089, 1094,
     1077, 1085, 1072, 1088, 1080, 1080, 32, 1073, 1091, 1076, 1091, 1097, 1077, 1075, 1086, 32,
     1090, 1072, 1082, 32, 1103, 1088, 1082, 1086, 44, 32, 1095, 1090, 1086, 32, 1090, 1077,
     1083, 1086, 32, 1085, 1072, 1095, 1080, 1085, 1072, 1077, 1090, 32, 1074, 1077, 1088, 1080,
     1090, 1100, 44, 32, 1073, 1091, 1076, 1090, 1086, 32, 1101, 1090, 1086, 32, 1087, 1088,
     1086, 1080, 1089, 1093, 1086, 1076, 1080, 1090, 32, 1087, 1088, 1103, 1084, 1086, 32, 1089,
     1077, 1081, 1095, 1072, 1089, 46, 32, 1057, 1077, 1088, 1076, 1094, 1077, 32, 1073, 1100,
     1077, 1090, 1089, 1103, 32, 1095, 1072, 1097, 1077, 44, 32, 1076, 1099, 1093, 1072, 1085,
     1080, 1077, 32, 1089, 1090, 1072, 1085, 1086, 1074, 1080, 1090, 1089, 1103, 32, 1087, 1086,
     1074, 1077, 1088, 1093, 1085, 1086, 1089, 1090, 1085, 1099, 1084, 32, 8212, 32, 1101, 1090,
     1086, 32, 1076, 1088, 1077, 1074, 1085, 1080, 1081, 32, 1084, 1077, 1093, 1072, 1085, 1080,
     1079, 1084, 32, 1079, 1072, 1097, 1080, 1090, 1099, 44, 32, 1082, 1086, 1090, 1086, 1088,
     1099, 1081, 32, 1074, 1082, 1083, 1102, 1095, 1080, 1083, 1089, 1103, 32, 1085, 1077, 32,
     1074, 1086, 1074, 1088, 1077, 1084, 1103, 46, 32, 1042, 1072, 1078, 1085, 1086, 32, 1087,
     1086, 1085, 1103, 1090, 1100, 58, 32, 1101, 1090, 1080, 32, 1084, 1099, 1089, 1083, 1080,
     32, 8212, 32, 1085, 1077, 32, 1092, 1072, 1082, 1090, 1099, 46, 32, 1057, 1077, 1081, 1095,
     1072, 1089, 32, 1074, 1099, 32, 1085, 1072, 1093, 1086, 1076, 1080, 1090, 1077, 1089, 1100,
     32, 1074, 32, 1073, 1077, 1079, 1086, 1087, 1072, 1089, 1085, 1086, 1089, 1090, 1080, 44,
     32, 1080, 32, 1074, 1072, 1096, 1077, 1081, 32, 1085, 1077, 1088, 1074, 1085, 1086, 1081,
     32, 1089, 1080, 1089, 1090, 1077, 1084, 1077, 32, 1087, 1088, 1086, 1089, 1090, 1086, 32,
     1085, 1091, 1078, 1077, 1085, 32, 1092, 1080, 1079, 1080, 1095, 1077, 1089, 1082, 1080,
     1081, 32, 1089, 1080, 1075, 1085, 1072, 1083, 44, 32, 1095, 1090, 1086, 1073, 1099, 32,
     1074, 1099, 1081, 1090, 1080, 32, 1080, 1079, 32, 1088, 1077, 1078, 1080, 1084, 1072, 32,
     34, 1073, 1077, 1081, 32, 1080, 1083, 1080, 32, 1073, 1077, 1075, 1080, 34, 46]"

definition COPY_anxiety_technique :: jsstring where
  \<comment> \<open>COPY.states.anxiety.technique, line 117\<close>
  "COPY_anxiety_technique =
    [1044, 1072, 1074, 1072, 1081, 1090, 1077, 32, 1087, 1086, 1087, 1088, 1086, 1073, 1091,
     1077, 1084, 32, 1074, 1086, 1089, 1089, 1090, 1072, 1085, 1086, 1074, 1080, 1090, 1100, 32,
     1088, 1080, 1090, 1084, 32, 1095, 1077, 1088, 1077, 1079, 32, 1090, 1077, 1083, 1086, 46,
     32, 1057, 1076, 1077, 1083, 1072, 1081, 1090, 1077, 32, 1075, 1083, 1091, 1073, 1086, 1082,
     1080, 1081, 44, 32, 1085, 1086, 32, 1089, 1087, 1086, 1082, 1086, 1081, 1085, 1099, 1081,
     32, 1074, 1076, 1086, 1093, 32, 1085, 1072, 32, 52, 32, 1089, 1095, 1077, 1090, 1072, 46,
     32, 1055, 1088, 1077, 1076, 1089, 1090, 1072, 1074, 1100, 1090, 1077, 44, 32, 1082, 1072,
     1082, 32, 1074, 1086, 1079, 1076, 1091, 1093, 32, 1085, 1072, 1087, 1086, 1083, 1085, 1103,
     1077, 1090, 32, 1083, 1077, 1075, 1082, 1080, 1077, 32, 1076, 1086, 32, 1089, 1072, 1084,
     1086, 1075, 1086, 32, 1085, 1080, 1079, 1072, 46, 32, 1047, 1072, 1076, 1077, 1088, 1078,
     1080, 1090, 1077, 32, 1076, 1099, 1093, 1072, 1085, 1080, 1077, 32, 1085, 1072, 32, 52, 32,
     1089, 1095, 1077, 1090, 1072, 46, 32, 1058, 1077, 1087, 1077, 1088, 1100, 32, 1087, 1083,
     1072, 1074, 1085, 1086, 44, 32, 1082, 1072, 1082, 32, 1095, 1077, 1088, 1077, 1079, 32,
     1089, 1086, 1083, 1086, 1084, 1080, 1085, 1082, 1091, 44, 32, 1074, 1099, 1076, 1099, 1093,
     1072, 1081, 1090, 1077, 32, 1085, 1072, 32, 52, 32, 1089, 1095, 1077, 1090, 1072, 44, 32,
     1086, 1090, 1087, 1091, 1089, 1082, 1072, 1103, 32, 1085, 1072, 1087, 1088, 1103, 1078,
     1077, 1085, 1080, 1077, 32, 1080, 1079, 32, 1095, 1077, 1083, 1102, 1089, 1090, 1080, 32,
     1080, 32, 1087, 1083, 1077, 1095, 46, 32, 1057, 1085, 1086, 1074, 1072, 32, 1079, 1072,
     1076, 1077, 1088, 1078, 1082, 1072, 32, 1085, 1072, 32, 52, 46, 32, 1055, 1086, 1074, 1090,
     1086, 1088, 1080, 1090, 1077, 32, 1101, 1090, 1086, 1090, 32, 1094, 1080, 1082, 1083, 32,
     53, 8211, 55, 32, 1088, 1072, 1079, 46, 32, 1042, 1099, 32, 1079, 1072, 1084, 1077, 1090,
     1080, 1090, 1077, 44, 32, 1082, 1072, 1082, 32, 1089, 32, 1082, 1072, 1078, 1076, 1099,
     1084, 32, 1082, 1088, 1091, 1075, 1086, 1084, 32, 1084, 1099, 1089, 1083, 1080, 32, 1089,
     1090, 1072, 1085, 1086, 1074, 1103, 1090, 1089, 1103, 32, 1095, 1091, 1090, 1100, 32, 1084,
     1077, 1085, 1077, 1077, 32, 1075, 1088, 1086, 1084, 1082, 1080, 1084, 1080, 44, 32, 1072,
     32, 1087, 1091, 1083, 1100, 1089, 32, 1079, 1072, 1084, 1077, 1076, 1083, 1103, 1077, 1090,
     1089, 1103, 46]"

definition COPY_anger_label :: jsstring where
  \<comment> \<open>COPY.states.anger.label, line 120\<close>
  "COPY_anger_label =
    [55357, 56865, 32, 1043, 1085, 1077, 1074, 32, 47, 32, 1056, 1072, 1079, 1076, 1088, 1072,
     1078, 1077, 1085, 1080, 1077]"

definition COPY_anger_explain :: jsstring where
  \<comment> \<open>COPY.states.anger.explain, line 122\<close>
  "COPY_anger_explain =
    [1043, 1085, 1077, 1074, 32, 8212, 32, 1101, 1090, 1086, 32, 1086, 1075, 1088, 1086, 1084,
     1085, 1099, 1081, 32, 1080, 1084, 1087, 1091, 1083, 1100, 1089, 32, 1101, 1085, 1077, 1088,
     1075, 1080, 1080, 44, 32, 1082, 1086, 1090, 1086, 1088, 1099, 1081, 32, 1074, 1086, 1079,
     1085, 1080, 1082, 32, 1074, 1085, 1091, 1090, 1088, 1080, 44, 32, 1095, 1090, 1086, 1073,
     1099, 32, 1079, 1072, 1097, 1080, 1090, 1080, 1090, 1100, 32, 1074, 1072, 1096, 1080, 32,
     1075, 1088, 1072, 1085, 1080, 1094, 1099, 32, 1080, 1083, 1080, 32, 1094, 1077, 1085, 1085,
     1086, 1089, 1090, 1080, 46, 32, 1045, 1089, 1083, 1080, 32, 1084, 1099, 32, 1077, 1075,
     1086, 32, 1087, 1086, 1076, 1072, 1074, 1083, 1103, 1077, 1084, 44, 32, 1086, 1085, 32,
     1087, 1088, 1077, 1074, 1088, 1072, 1097, 1072, 1077, 1090, 1089, 1103, 32, 1074, 32, 1103,
     1076, 32, 1076, 1083, 1103, 32, 1090, 1077, 1083, 1072, 32, 1080, 1083, 1080, 32, 34, 1074,
     1079, 1088, 1099, 1074, 1072, 1077, 1090, 1089, 1103, 34, 32, 1085, 1072, 32, 1073, 1083,
     1080, 1079, 1082, 1080, 1093, 46, 32, 1042, 32, 1101, 1090, 1086, 1084, 32, 1089, 1086,
     1089, 1090, 1086, 1103, 1085, 1080, 1080, 32, 1073, 1077, 1089, 1087, 1086, 1083, 1077,
     1079, 1085, 1086, 32, 1087, 1099, 1090, 1072, 1090, 1100, 1089, 1103, 32, 34, 1087, 1088,
     1086, 1089, 1090, 1086, 32, 1091, 1089, 1087, 1086, 1082, 1086, 1080, 1090, 1100, 1089,
     1103, 34, 32, 1075, 1086, 1083, 1086, 1074, 1086, 1081, 44, 32, 1087, 1086, 1090, 1086,
     1084, 1091, 32, 1095, 1090, 1086, 32, 1075, 1085, 1077, 1074, 32, 1078, 1080, 1074, 1077,
     1090, 32, 1074, 32, 1084, 1099, 1096, 1094, 1072, 1093, 46, 32, 1063, 1090, 1086, 1073,
     1099, 32, 1086, 1085, 32, 1087, 1077, 1088, 1077, 1089, 1090, 1072, 1083, 32, 1074, 1072,
     1089, 32, 1079, 1072, 1090, 1072, 1087, 1083, 1080, 1074, 1072, 1090, 1100, 44, 32, 1085,
     1072, 1084, 32, 1085, 1091, 1078, 1085, 1086, 32, 1076, 1072, 1090, 1100, 32, 1101, 1090,
     1086, 1081, 32, 1101, 1085, 1077, 1088, 1075, 1080, 1080, 32, 1073, 1077, 1079, 1086, 1087,
     1072, 1089, 1085, 1099, 1081, 32, 1074, 1099, 1093, 1086, 1076, 44, 32, 1089, 1073, 1088,
     1086, 1089, 1080, 1090, 1100, 32, 1083, 1080, 1096, 1085, 1077, 1077, 32, 1085, 1072, 1087,
     1088, 1103, 1078, 1077, 1085, 1080, 1077, 32, 1095, 1077, 1088, 1077, 1079, 32, 1092, 1080,
     1079, 1080, 1095, 1077, 1089, 1082, 1086, 1077, 32, 1091, 1089, 1080, 1083, 1080, 1077, 44,
     32, 1085, 1077, 32, 1087, 1088, 1080, 1095, 1080, 1085, 1103, 1103, 32, 1074, 1088, 1077,
     1076, 1072, 32, 1085, 1080, 32, 1089, 1077, 1073, 1077, 44, 32, 1085, 1080, 32, 1086, 1082,
     1088, 1091, 1078, 1072, 1102, 1097, 1080, 1084, 46]"

definition COPY_anger_technique :: jsstring where
  \<comment> \<open>COPY.states.anger.technique, line 124\<close>
  "COPY_anger_technique =
    [1055, 1088, 1103, 1084, 1086, 32, 1089, 1077, 1081, 1095, 1072, 1089, 44, 32, 1075, 1076,
     1077, 32, 1073, 1099, 32, 1074, 1099, 32, 1085, 1080, 32, 1073, 1099, 1083, 1080, 44, 32,
     1089, 1086, 1078, 1084, 1080, 1090, 1077, 32, 1082, 1091, 1083, 1072, 1082, 1080, 32, 1080,
     1079, 1086, 32, 1074, 1089, 1077, 1081, 32, 1089, 1080, 1083, 1099, 46, 32, 1053, 1072,
     1087, 1088, 1103, 1075, 1080, 1090, 1077, 32, 1088, 1091, 1082, 1080, 44, 32, 1087, 1083,
     1077, 1095, 1080, 44, 32, 1087, 1088, 1077, 1089, 1089, 44, 32, 1076, 1072, 1078, 1077, 32,
     1084, 1099, 1096, 1094, 1099, 32, 1083, 1080, 1094, 1072, 46, 32, 1055, 1088, 1077, 1076,
     1089, 1090, 1072, 1074, 1100, 1090, 1077, 44, 32, 1095, 1090, 1086, 32, 1074, 1099, 32,
     1089, 1078, 1080, 1084, 1072, 1077, 1090, 1077, 32, 1087, 1088, 1091, 1078, 1080, 1085,
     1091, 32, 1076, 1086, 32, 1087, 1088, 1077, 1076, 1077, 1083, 1072, 46, 32, 1044, 1077,
     1088, 1078, 1080, 1090, 1077, 32, 1101, 1090, 1086, 32, 1085, 1072, 1087, 1088, 1103, 1078,
     1077, 1085, 1080, 1077, 32, 53, 8211, 55, 32, 1089, 1077, 1082, 1091, 1085, 1076, 46, 46,
     46, 32, 1040, 32, 1090, 1077, 1087, 1077, 1088, 1100, 32, 8212, 32, 1088, 1077, 1079, 1082,
     1080, 1081, 44, 32, 1096, 1091, 1084, 1085, 1099, 1081, 32, 1074, 1099, 1076, 1086, 1093,
     32, 1080, 32, 1084, 1075, 1085, 1086, 1074, 1077, 1085, 1085, 1086, 1077, 32, 1088, 1072,
     1089, 1089, 1083, 1072, 1073, 1083, 1077, 1085, 1080, 1077, 46, 32, 1055, 1086, 1095, 1091,
     1074, 1089, 1090, 1074, 1091, 1081, 1090, 1077, 44, 32, 1082, 1072, 1082, 32, 1090, 1103,
     1078, 1077, 1089, 1090, 1100, 32, 1091, 1093, 1086, 1076, 1080, 1090, 32, 1080, 1079, 32,
     1088, 1091, 1082, 32, 1074, 32, 1087, 1086, 1083, 46, 32, 1057, 1076, 1077, 1083, 1072,
     1081, 1090, 1077, 32, 1090, 1072, 1082, 32, 1090, 1088, 1080, 1078, 1076, 1099, 46, 32,
     1069, 1090, 1086, 1090, 32, 1088, 1077, 1079, 1082, 1080, 1081, 32, 1082, 1086, 1085, 1090,
     1088, 1072, 1089, 1090, 32, 34, 1085, 1072, 1087, 1088, 1103, 1078, 1077, 1085, 1080, 1077,
     45, 1088, 1072, 1089, 1089, 1083, 1072, 1073, 1083, 1077, 1085, 1080, 1077, 34, 32, 1076,
     1072, 1077, 1090, 32, 1084, 1086, 1079, 1075, 1091, 32, 1082, 1086, 1084, 1072, 1085, 1076,
     1091, 32, 1074, 1099, 1082, 1083, 1102, 1095, 1080, 1090, 1100, 32, 1088, 1077, 1078, 1080,
     1084, 32, 1072, 1090, 1072, 1082, 1080, 46]"

definition COPY_apathy_label :: jsstring where
  \<comment> \<open>COPY.states.apathy.label, line 127\<close>
  "COPY_apathy_label =
    [55357, 56886, 8205, 55356, 57131, 65039, 32, 1040, 1087, 1072, 1090, 1080, 1103, 32, 47, 32,
     1057, 1080, 1083, 32, 1085, 1077, 1090]"

definition COPY_apathy_explain :: jsstring where
  \<comment> \<open>COPY.states.apathy.explain, line 129\<close>
  "COPY_apathy_explain =
    [1057, 1086, 1089, 1090, 1086, 1103, 1085, 1080, 1077, 44, 32, 1082, 1086, 1075, 1076, 1072,
     32, 34, 1089, 1077, 1083, 1080, 32, 1073, 1072, 1090, 1072, 1088, 1077, 1081, 1082, 1080,
     34, 44, 32, 8212, 32, 1101, 1090, 1086, 32, 1095, 1072, 1089, 1090, 1086, 32, 1085, 1077,
     32, 1083, 1077, 1085, 1100, 44, 32, 1072, 32, 1079, 1072, 1097, 1080, 1090, 1085, 1086,
     1077, 32, 1090, 1086, 1088, 1084, 1086, 1078, 1077, 1085, 1080, 1077, 32, 1087, 1089, 1080,
     1093, 1080, 1082, 1080, 46, 32, 1050, 1086, 1075, 1076, 1072, 32, 1089, 1090, 1088, 1077,
     1089, 1089, 1072, 32, 1080, 1083, 1080, 32, 1085, 1077, 1086, 1087, 1088, 1077, 1076, 1077,
     1083, 1077, 1085, 1085, 1086, 1089, 1090, 1080, 32, 1089, 1090, 1072, 1085, 1086, 1074,
     1080, 1090, 1089, 1103, 32, 1089, 1083, 1080, 1096, 1082, 1086, 1084, 32, 1084, 1085, 1086,
     1075, 1086, 44, 32, 1089, 1080, 1089, 1090, 1077, 1084, 1072, 32, 1087, 1088, 1086, 1089,
     1090, 1086, 32, 1074, 1099, 1082, 1083, 1102, 1095, 1072, 1077, 1090, 32, 1089, 1074, 1077,
     1090, 44, 32, 1095, 1090, 1086, 1073, 1099, 32, 1085, 1077, 32, 1089, 1075, 1086, 1088,
     1077, 1090, 1100, 32, 1086, 1090, 32, 1087, 1077, 1088, 1077, 1075, 1088, 1091, 1079, 1072,
     46, 32, 1042, 32, 1090, 1072, 1082, 1080, 1077, 32, 1084, 1086, 1084, 1077, 1085, 1090,
     1099, 32, 1073, 1077, 1089, 1087, 1086, 1083, 1077, 1079, 1085, 1086, 32, 1079, 1072, 1089,
     1090, 1072, 1074, 1083, 1103, 1090, 1100, 32, 1089, 1077, 1073, 1103, 32, 1073, 1099, 1090,
     1100, 32, 1087, 1088, 1086, 1076, 1091, 1082, 1090, 1080, 1074, 1085, 1099, 1084, 46, 32,
     1057, 1077, 1081, 1095, 1072, 1089, 32, 1074, 1072, 1096, 1072, 32, 1079, 1072, 1076, 1072,
     1095, 1072, 32, 8212, 32, 1085, 1077, 32, 1089, 1086, 1074, 1077, 1088, 1096, 1080, 1090,
     1100, 32, 1087, 1086, 1076, 1074, 1080, 1075, 44, 32, 1072, 32, 1084, 1103, 1075, 1082,
     1086, 32, 34, 1079, 1072, 1079, 1077, 1084, 1083, 1080, 1090, 1100, 1089, 1103, 34, 44, 32,
     1074, 1077, 1088, 1085, 1091, 1090, 1100, 1089, 1103, 32, 1080, 1079, 32, 1074, 1072, 1082,
     1091, 1091, 1084, 1072, 32, 1089, 1074, 1086, 1080, 1093, 32, 1084, 1099, 1089, 1083, 1077,
     1081, 32, 1080, 32, 1087, 1077, 1088, 1077, 1078, 1080, 1074, 1072, 1085, 1080, 1081, 32,
     1074, 32, 1088, 1077, 1072, 1083, 1100, 1085, 1099, 1081, 32, 1084, 1080, 1088, 44, 32,
     1087, 1086, 1095, 1091, 1074, 1089, 1090, 1074, 1086, 1074, 1072, 1090, 1100, 32, 1086,
     1087, 1086, 1088, 1091, 32, 1080, 32, 1074, 1077, 1088, 1085, 1091, 1090, 1100, 32, 1089,
     1077, 1073, 1077, 32, 1082, 1086, 1085, 1090, 1088, 1086, 1083, 1100, 32, 1085, 1072, 1076,
     32, 1084, 1072, 1083, 1077, 1085, 1100, 1082, 1080, 1084, 1080, 32, 1074, 1077, 1097, 1072,
     1084, 1080, 46]"

definition COPY_apathy_technique :: jsstring where
  \<comment> \<open>COPY.states.apathy.technique, line 131\<close>
  "COPY_apathy_technique =
    [1044, 1072, 1074, 1072, 1081, 1090, 1077, 32, 1074, 1099, 1087, 1086, 1083, 1085, 1080,
     1084, 32, 1087, 1088, 1072, 1082, 1090, 1080, 1082, 1091, 32, 34, 53, 45, 52, 45, 51, 45,
     50, 45, 49, 34, 46, 32, 1052, 1077, 1076, 1083, 1077, 1085, 1085, 1086, 32, 1086, 1075,
     1083, 1103, 1085, 1080, 1090, 1077, 1089, 1100, 32, 1074, 1086, 1082, 1088, 1091, 1075, 32,
     1080, 32, 1086, 1090, 1084, 1077, 1090, 1100, 1090, 1077, 32, 53, 32, 1087, 1088, 1077,
     1076, 1084, 1077, 1090, 1086, 1074, 32, 1089, 1080, 1085, 1077, 1075, 1086, 32, 1080, 1083,
     1080, 32, 1079, 1077, 1083, 1077, 1085, 1086, 1075, 1086, 32, 1094, 1074, 1077, 1090, 1072,
     46, 32, 1055, 1088, 1080, 1089, 1083, 1091, 1096, 1072, 1081, 1090, 1077, 1089, 1100, 32,
     1082, 32, 1087, 1088, 1086, 1089, 1090, 1088, 1072, 1085, 1089, 1090, 1074, 1091, 32, 1080,
     32, 1074, 1099, 1076, 1077, 1083, 1080, 1090, 1077, 32, 51, 32, 1088, 1072, 1079, 1085,
     1099, 1093, 32, 1079, 1074, 1091, 1082, 1072, 32, 40, 1090, 1080, 1082, 32, 1095, 1072,
     1089, 1086, 1074, 44, 32, 1096, 1091, 1084, 32, 1079, 1072, 32, 1086, 1082, 1085, 1086,
     1084, 44, 32, 1074, 1072, 1096, 1077, 32, 1076, 1099, 1093, 1072, 1085, 1080, 1077, 41, 46,
     32, 1055, 1086, 1095, 1091, 1074, 1089, 1090, 1074, 1091, 1081, 1090, 1077, 32, 50, 32,
     1092, 1080, 1079, 1080, 1095, 1077, 1089, 1082, 1080, 1093, 32, 1086, 1097, 1091, 1097,
     1077, 1085, 1080, 1103, 58, 32, 1082, 1072, 1082, 32, 1086, 1076, 1077, 1078, 1076, 1072,
     32, 1082, 1072, 1089, 1072, 1077, 1090, 1089, 1103, 32, 1082, 1086, 1078, 1080, 32, 1080,
     32, 1082, 1072, 1082, 32, 1074, 1072, 1096, 1080, 32, 1089, 1090, 1086, 1087, 1099, 32,
     1091, 1074, 1077, 1088, 1077, 1085, 1085, 1086, 32, 1076, 1072, 1074, 1103, 1090, 32, 1085,
     1072, 32, 1087, 1086, 1083, 46, 32, 1048, 44, 32, 1085, 1072, 1082, 1086, 1085, 1077, 1094,
     44, 32, 1089, 1076, 1077, 1083, 1072, 1081, 1090, 1077, 32, 1086, 1076, 1080, 1085, 32,
     1086, 1089, 1086, 1079, 1085, 1072, 1085, 1085, 1099, 1081, 32, 1074, 1076, 1086, 1093, 44,
     32, 1095, 1091, 1074, 1089, 1090, 1074, 1091, 1103, 44, 32, 1082, 1072, 1082, 32, 1087,
     1088, 1086, 1093, 1083, 1072, 1076, 1085, 1099, 1081, 32, 1074, 1086, 1079, 1076, 1091,
     1093, 32, 1079, 1072, 1093, 1086, 1076, 1080, 1090, 32, 1074, 32, 1085, 1086, 1079, 1076,
     1088, 1080, 46, 32, 1042, 1099, 32, 1079, 1076, 1077, 1089, 1100, 46, 32, 1042, 1099, 32,
     1074, 32, 1073, 1077, 1079, 1086, 1087, 1072, 1089, 1085, 1086, 1089, 1090, 1080, 46, 32,
     1069, 1090, 1086, 1075, 1086, 32, 1085, 1072, 32, 1076, 1072, 1085, 1085, 1099, 1081, 32,
     1084, 1086, 1084, 1077, 1085, 1090, 32, 1076, 1086, 1089, 1090, 1072, 1090, 1086, 1095,
     1085, 1086, 46]"

definition COPY_afterTechnique :: jsstring where
  \<comment> \<open>COPY.afterTechnique, line 136\<close>
  "COPY_afterTechnique =
    [1071, 32, 1088, 1072, 1076, 1072, 44, 32, 1095, 1090, 1086, 32, 1074, 1099, 32, 1091, 1076,
     1077, 1083, 1080, 1083, 1080, 32, 1101, 1090, 1080, 32, 1085, 1077, 1089, 1082, 1086, 1083,
     1100, 1082, 1086, 32, 1084, 1080, 1085, 1091, 1090, 32, 1089, 1077, 1073, 1077, 46, 32,
     1044, 1072, 1078, 1077, 32, 1077, 1089, 1083, 1080, 32, 1089, 1090, 1072, 1083, 1086, 32,
     1083, 1077, 1075, 1095, 1077, 32, 1089, 1086, 1074, 1089, 1077, 1084, 32, 1095, 1091, 1090,
     1100, 45, 1095, 1091, 1090, 1100, 32, 8212, 32, 1101, 1090, 1086, 32, 1091, 1078, 1077, 32,
     1074, 1072, 1078, 1085, 1072, 1103, 32, 1087, 1086, 1073, 1077, 1076, 1072, 32, 1085, 1072,
     1076, 32, 1089, 1086, 1089, 1090, 1086, 1103, 1085, 1080, 1077, 1084, 46, 10, 10, 1058,
     1072, 1082, 1080, 1077, 32, 1090, 1077, 1093, 1085, 1080, 1082, 1080, 32, 8212, 32, 1101,
     1090, 1086, 32, 1073, 1077, 1088, 1077, 1078, 1085, 1072, 1103, 32, 34, 1089, 1082, 1086,
     1088, 1072, 1103, 32, 1087, 1086, 1084, 1086, 1097, 1100, 34, 46, 32, 1054, 1085, 1080, 32,
     1087, 1086, 1084, 1086, 1075, 1072, 1102, 1090, 32, 1085, 1077, 32, 1091, 1090, 1086, 1085,
     1091, 1090, 1100, 32, 1074, 32, 1084, 1086, 1084, 1077, 1085, 1090, 1077, 44, 32, 1085,
     1086, 44, 32, 1082, 32, 1089, 1086, 1078, 1072, 1083, 1077, 1085, 1080, 1102, 44, 32, 1085,
     1077, 32, 1091, 1073, 1080, 1088, 1072, 1102, 1090, 32, 1089, 1072, 1084, 1091, 32, 1087,
     1088, 1080, 1095, 1080, 1085, 1091, 44, 32, 1087, 1086, 32, 1082, 1086, 1090, 1086, 1088,
     1086, 1081, 32, 1074, 1072, 1089, 32, 34, 1085, 1072, 1082, 1088, 1099, 1074, 1072, 1077,
     1090, 34, 46, 32, 1045, 1089, 1083, 1080, 32, 1101, 1084, 1086, 1094, 1080, 1080, 32, 1079,
     1072, 1090, 1072, 1087, 1083, 1080, 1074, 1072, 1102, 1090, 32, 1088, 1077, 1075, 1091,
     1083, 1103, 1088, 1085, 1086, 44, 32, 1079, 1085, 1072, 1095, 1080, 1090, 44, 32, 1074,
     1085, 1091, 1090, 1088, 1080, 32, 1085, 1072, 1082, 1086, 1087, 1080, 1083, 1089, 1103, 32,
     1082, 1088, 1080, 1090, 1080, 1095, 1077, 1089, 1082, 1080, 1081, 32, 1086, 1073, 1098,
     1077, 1084, 32, 1091, 1089, 1090, 1072, 1083, 1086, 1089, 1090, 1080, 32, 1080, 1083, 1080,
     32, 1085, 1077, 1088, 1072, 1079, 1088, 1077, 1096, 1077, 1085, 1085, 1099, 1093, 32, 1089,
     1080, 1090, 1091, 1072, 1094, 1080, 1081, 46, 10, 10, 1063, 1090, 1086, 1073, 1099, 32,
     1103, 32, 1084, 1086, 1075, 1083, 1072, 32, 1083, 1091, 1095, 1096, 1077, 32, 1087, 1086,
     1085, 1103, 1090, 1100, 32, 1074, 1072, 1096, 32, 1082, 1086, 1085, 1090, 1077, 1082, 1089,
     1090, 44, 32, 1089, 1082, 1072, 1078, 1080, 1090, 1077, 32, 8212, 32, 1082, 1072, 1082, 32,
     1095, 1072, 1089, 1090, 1086, 32, 1074, 1099, 32, 1083, 1086, 1074, 1080, 1090, 1077, 32,
     1089, 1077, 1073, 1103, 32, 1085, 1072, 32, 1090, 1072, 1082, 1080, 1093, 32, 1095, 1091,
     1074, 1089, 1090, 1074, 1072, 1093, 32, 1074, 32, 1087, 1086, 1089, 1083, 1077, 1076, 1085,
     1077, 1077, 32, 1074, 1088, 1077, 1084, 1103, 63]"

definition COPY_offerRare :: jsstring where
  \<comment> \<open>COPY.offerRare, line 139\<close>
  "COPY_offerRare =
    [1047, 1076, 1086, 1088, 1086, 1074, 1086, 44, 32, 1095, 1090, 1086, 32, 1074, 32, 1094,
     1077, 1083, 1086, 1084, 32, 1074, 1099, 32, 1089, 1087, 1088, 1072, 1074, 1083, 1103, 1077,
     1090, 1077, 1089, 1100, 46, 32, 1053, 1086, 32, 1076, 1072, 1078, 1077, 32, 1088, 1077,
     1076, 1082, 1080, 1077, 32, 1074, 1089, 1087, 1099, 1096, 1082, 1080, 32, 8212, 32, 1101,
     1090, 1086, 32, 1087, 1086, 1074, 1086, 1076, 32, 1087, 1088, 1080, 1089, 1083, 1091, 1096,
     1072, 1090, 1100, 1089, 1103, 32, 1082, 32, 1089, 1077, 1073, 1077, 44, 32, 1087, 1086,
     1082, 1072, 32, 1086, 1085, 1080, 32, 1085, 1077, 32, 1089, 1090, 1072, 1083, 1080, 32,
     1089, 1080, 1089, 1090, 1077, 1084, 1086, 1081, 46, 32, 1045, 1089, 1083, 1080, 32, 1087,
     1086, 1095, 1091, 1074, 1089, 1090, 1074, 1091, 1077, 1090, 1077, 44, 32, 1095, 1090, 1086,
     32, 1093, 1086, 1090, 1080, 1090, 1077, 32, 1088, 1072, 1079, 1086, 1073, 1088, 1072, 1090,
     1100, 1089, 1103, 32, 1074, 32, 1087, 1088, 1080, 1095, 1080, 1085, 1072, 1093, 32, 1075,
     1083, 1091, 1073, 1078, 1077, 32, 1080, 32, 1091, 1082, 1088, 1077, 1087, 1080, 1090, 1100,
     32, 1089, 1074, 1086, 1080, 32, 1074, 1085, 1091, 1090, 1088, 1077, 1085, 1085, 1080, 1077,
     32, 1086, 1087, 1086, 1088, 1099, 32, 8212, 32, 1103, 32, 1073, 1091, 1076, 1091, 32, 1088,
     1072, 1076, 1072, 32, 1087, 1086, 1084, 1086, 1095, 1100, 32, 1074, 1072, 1084, 32, 1085,
     1072, 32, 1082, 1086, 1085, 1089, 1091, 1083, 1100, 1090, 1072, 1094, 1080, 1080, 46, 32,
     1048, 1085, 1086, 1075, 1076, 1072, 32, 1086, 1076, 1085, 1086, 1075, 1086, 32, 1090, 1086,
     1095, 1085, 1086, 1075, 1086, 32, 1088, 1072, 1079, 1075, 1086, 1074, 1086, 1088, 1072, 32,
     1076, 1086, 1089, 1090, 1072, 1090, 1086, 1095, 1085, 1086, 44, 32, 1095, 1090, 1086, 1073,
     1099, 32, 1074, 1077, 1088, 1085, 1091, 1090, 1100, 32, 1082, 1086, 1085, 1090, 1088, 1086,
     1083, 1100, 46, 32, 1055, 1088, 1080, 1075, 1083, 1072, 1096, 1072, 1102, 32, 1074, 1072,
     1089, 32, 1085, 1072, 32, 1082, 1086, 1088, 1086, 1090, 1082, 1091, 1102, 32, 1086, 1079,
     1085, 1072, 1082, 1086, 1084, 1080, 1090, 1077, 1083, 1100, 1085, 1091, 1102, 32, 1074,
     1089, 1090, 1088, 1077, 1095, 1091, 32, 40, 51, 48, 32, 1084, 1080, 1085, 1091, 1090, 41, 46]"

definition COPY_offerRegular :: jsstring where
  \<comment> \<open>COPY.offerRegular, line 142\<close>
  "COPY_offerRegular =
    [1057, 1087, 1072, 1089, 1080, 1073, 1086, 32, 1079, 1072, 32, 1095, 1077, 1089, 1090, 1085,
     1086, 1089, 1090, 1100, 46, 32, 1046, 1080, 1090, 1100, 32, 1074, 32, 1090, 1072, 1082,
     1086, 1084, 32, 1088, 1077, 1078, 1080, 1084, 1077, 32, 8212, 32, 1101, 1090, 1086, 32,
     1086, 1075, 1088, 1086, 1084, 1085, 1072, 1103, 44, 32, 1080, 1079, 1084, 1072, 1090, 1099,
     1074, 1072, 1102, 1097, 1072, 1103, 32, 1085, 1072, 1075, 1088, 1091, 1079, 1082, 1072, 32,
     1085, 1072, 32, 1074, 1072, 1096, 1091, 32, 1085, 1077, 1088, 1074, 1085, 1091, 1102, 32,
     1089, 1080, 1089, 1090, 1077, 1084, 1091, 46, 32, 1069, 1090, 1086, 32, 1082, 1072, 1082,
     32, 1077, 1093, 1072, 1090, 1100, 32, 1085, 1072, 32, 1072, 1074, 1090, 1086, 1084, 1086,
     1073, 1080, 1083, 1077, 44, 32, 1091, 32, 1082, 1086, 1090, 1086, 1088, 1086, 1075, 1086,
     32, 1087, 1086, 1089, 1090, 1086, 1103, 1085, 1085, 1086, 32, 1084, 1080, 1075, 1072, 1077,
     1090, 32, 1083, 1072, 1084, 1087, 1086, 1095, 1082, 1072, 32, 1087, 1077, 1088, 1077, 1075,
     1088, 1077, 1074, 1072, 58, 32, 1084, 1086, 1078, 1085, 1086, 32, 1087, 1086, 1076, 1083,
     1080, 1074, 1072, 1090, 1100, 32, 1074, 1086, 1076, 1099, 44, 32, 1085, 1086, 32, 1085,
     1091, 1078, 1085, 1086, 32, 1095, 1080, 1085, 1080, 1090, 1100, 32, 1084, 1086, 1090, 1086,
     1088, 46, 10, 10, 1057, 1072, 1084, 1086, 1087, 1086, 1084, 1086, 1097, 1100, 32, 8212, 32,
     1101, 1090, 1086, 32, 1074, 1072, 1078, 1085, 1086, 44, 32, 1085, 1086, 32, 1074, 32, 1086,
     1076, 1080, 1085, 1086, 1095, 1082, 1091, 32, 1085, 1072, 1081, 1090, 1080, 32, 1074, 1099,
     1093, 1086, 1076, 32, 1080, 1079, 32, 1079, 1072, 1084, 1082, 1085, 1091, 1090, 1086, 1075,
     1086, 32, 1082, 1088, 1091, 1075, 1072, 32, 1073, 1099, 1074, 1072, 1077, 1090, 32, 1086,
     1095, 1077, 1085, 1100, 32, 1090, 1088, 1091, 1076, 1085, 1086, 46, 32, 1063, 1090, 1086,
     1073, 1099, 32, 1085, 1077, 32, 1076, 1086, 1074, 1077, 1089, 1090, 1080, 32, 1089, 1077,
     1073, 1103, 32, 1076, 1086, 32, 1087, 1086, 1083, 1085, 1086, 1075, 1086, 32, 1074, 1099,
     1075, 1086, 1088, 1072, 1085, 1080, 1103, 44, 32, 1103, 32, 1087, 1088, 1080, 1075, 1083,
     1072, 1096, 1072, 1102, 32, 1074, 1072, 1089, 32, 1085, 1072, 32, 1082, 1086, 1088, 1086,
     1090, 1082, 1091, 1102, 32, 1086, 1079, 1085, 1072, 1082, 1086, 1084, 1080, 1090, 1077,
     1083, 1100, 1085, 1091, 1102, 32, 1074, 1089, 1090, 1088, 1077, 1095, 1091, 32, 40, 51, 48,
     32, 1084, 1080, 1085, 1091, 1090, 41, 46, 10, 10, 1052, 1099, 32, 1074, 32, 1089, 1087,
     1086, 1082, 1086, 1081, 1085, 1086, 1081, 32, 1086, 1073, 1089, 1090, 1072, 1085, 1086,
     1074, 1082, 1077, 32, 1088, 1072, 1079, 1073, 1077, 1088, 1077, 1084, 32, 1074, 1072, 1096,
     1091, 32, 1089, 1080, 1090, 1091, 1072, 1094, 1080, 1102, 44, 32, 1085, 1072, 1081, 1076,
     1077, 1084, 32, 1075, 1083, 1072, 1074, 1085, 1099, 1081, 32, 34, 1090, 1088, 1080, 1075,
     1075, 1077, 1088, 34, 44, 32, 1082, 1086, 1090, 1086, 1088, 1099, 1081, 32, 1089, 1083,
     1080, 1074, 1072, 1077, 1090, 32, 1074, 1072, 1096, 32, 1088, 1077, 1089, 1091, 1088, 1089,
     44, 32, 1080, 32, 1085, 1072, 1084, 1077, 1090, 1080, 1084, 32, 1087, 1083, 1072, 1085, 44,
     32, 1082, 1072, 1082, 32, 1074, 1077, 1088, 1085, 1091, 1090, 1100, 32, 1074, 1072, 1084,
     32, 1091, 1089, 1090, 1086, 1081, 1095, 1080, 1074, 1086, 1089, 1090, 1100, 32, 1080, 32,
     1088, 1072, 1076, 1086, 1089, 1090, 1100, 46, 32, 1069, 1090, 1086, 32, 1073, 1091, 1076,
     1077, 1090, 32, 1073, 1077, 1088, 1077, 1078, 1085, 1099, 1081, 32, 1087, 1088, 1086, 1092,
     1077, 1089, 1089, 1080, 1086, 1085, 1072, 1083, 1100, 1085, 1099, 1081, 32, 1088, 1072,
     1079, 1075, 1086, 1074, 1086, 1088, 44, 32, 1082, 1086, 1090, 1086, 1088, 1099, 1081, 32,
     1085, 1080, 32, 1082, 32, 1095, 1077, 1084, 1091, 32, 1074, 1072, 1089, 32, 1085, 1077, 32,
     1086, 1073, 1103, 1079, 1099, 1074, 1072, 1077, 1090, 46]"

definition BTN_done :: jsstring where
  \<comment> \<open>BTN.done, line 146\<close>
  "BTN_done =
    [9989, 32, 1057, 1076, 1077, 1083, 1072, 1083, 40, 1072, 41, 44, 32, 1089, 1090, 1072, 1083,
     1086, 32, 1083, 1077, 1075, 1095, 1077]"

definition BTN_book :: jsstring where
  \<comment> \<open>BTN.book, line 147\<close>
  "BTN_book =
    [55357, 56787, 32, 1047, 1072, 1087, 1080, 1089, 1072, 1090, 1100, 1089, 1103, 32, 1085,
     1072, 32, 1074, 1089, 1090, 1088, 1077, 1095, 1091, 32, 1089, 32, 1052, 1072, 1088, 1080,
     1077, 1081]"

definition FREQUENCY_rare :: jsstring where
  \<comment> \<open>FREQUENCY.rare, line 151\<close>
  "FREQUENCY_rare =
    [1069, 1090, 1086, 32, 1088, 1072, 1079, 1086, 1074, 1099, 1081, 32, 1101, 1087, 1080, 1079,
     1086, 1076, 32, 40, 1088, 1077, 1076, 1082, 1086, 41]"

definition FREQUENCY_weekly :: jsstring where
  \<comment> \<open>FREQUENCY.weekly, line 152\<close>
  "FREQUENCY_weekly =
    [1057, 1090, 1072, 1073, 1080, 1083, 1100, 1085, 1086, 32, 49, 8211, 50, 32, 1088, 1072,
     1079, 1072, 32, 1074, 32, 1085, 1077, 1076, 1077, 1083, 1102]"

definition FREQUENCY_daily :: jsstring where
  \<comment> \<open>FREQUENCY.daily, line 153\<close>
  "FREQUENCY_daily =
    [1055, 1086, 1095, 1090, 1080, 32, 1082, 1072, 1078, 1076, 1099, 1081, 32, 1076, 1077, 1085,
     1100, 44, 32, 1103, 32, 1074, 32, 1101, 1090, 1086, 1084, 32, 1078, 1080, 1074, 1091]"

record block =
  b_label :: jsstring
  b_explain :: jsstring
  b_technique :: jsstring

definition COPY_states :: "jsstring \<rightharpoonup> block" where
  \<comment> \<open>\<^verbatim>\<open>COPY.states[key]\<close>; a key that is no own property gives \<^verbatim>\<open>undefined\<close>\<close>
  "COPY_states key =
     (if key = ascii ''anxiety'' then
        Some \<lparr>b_label = COPY_anxiety_label, b_explain = COPY_anxiety_explain,
              b_technique = COPY_anxiety_technique\<rparr>
      else if key = ascii ''anger'' then
        Some \<lparr>b_label = COPY_anger_label, b_explain = COPY_anger_explain,
              b_technique = COPY_anger_technique\<rparr>
      else if key = ascii ''apathy'' then
        Some \<lparr>b_label = COPY_apathy_label, b_explain = COPY_apathy_explain,
              b_technique = COPY_apathy_technique\<rparr>
      else None)"

definition FREQUENCY :: "jsstring \<rightharpoonup> jsstring" where
  \<comment> \<open>\<^verbatim>\<open>FREQUENCY[key]\<close> on the own properties of the object; the keys the bot stores are
      \<open>rare\<close>, \<open>weekly\<close> and \<open>daily\<close>, and a name inherited from \<^verbatim>\<open>Object.prototype\<close>
      (\<^verbatim>\<open>constructor\<close>, \<^verbatim>\<open>toString\<close>) is not modelled\<close>
  "FREQUENCY key =
     (if key = ascii ''rare'' then Some FREQUENCY_rare
      else if key = ascii ''weekly'' then Some FREQUENCY_weekly
      else if key = ascii ''daily'' then Some FREQUENCY_daily
      else None)"

section \<open>Promises and the timeout race\<close>

text \<open>
  A promise is modelled by when and how it settles, in milliseconds after its creation;
  \<open>None\<close> is a promise that never settles. A call that returns a promise may instead
  throw synchronously.
\<close>

datatype js_error =
    TimeoutError jsstring     \<comment> \<open>\<^verbatim>\<open>new Error(label)\<close> of \<^verbatim>\<open>withTimeout\<close>\<close>
  | StoreError                \<comment> \<open>anything the store client throws or rejects with\<close>
  | TypeError                 \<comment> \<open>reading a property of \<^verbatim>\<open>undefined\<close>\<close>
  | TransportError            \<comment> \<open>anything a Telegram call throws or rejects with\<close>
  | NoChatId                  \<comment> \<open>\<^verbatim>\<open>new Error("no chatId")\<close>\<close>

datatype 'a settled = Fulfilled 'a | Rejected js_error

type_synonym 'a promise = "(nat \<times> 'a settled) option"

datatype 'a call = Throws js_error | Returns 'a

definition race :: "'a promise \<Rightarrow> 'a promise \<Rightarrow> 'a promise" where
  \<comment> \<open>\<^verbatim>\<open>Promise.race([p, q])\<close>: the first to settle; \<open>p\<close> stands first in the array\<close>
  "race p q =
     (case p of
        None \<Rightarrow> q
      | Some (tp, rp) \<Rightarrow>
          (case q of
             None \<Rightarrow> Some (tp, rp)
           | Some (tq, rq) \<Rightarrow> if tp \<le> tq then Some (tp, rp) else Some (tq, rq)))"

definition withTimeout :: "'a promise \<Rightarrow> nat \<Rightarrow> jsstring \<Rightarrow> 'a promise" where
  \<comment> \<open>the timer rejects with \<^verbatim>\<open>new Error(label)\<close> after \<open>ms\<close>; \<^verbatim>\<open>finally\<close> only clears it\<close>
  "withTimeout p ms label = race p (Some (ms, Rejected (TimeoutError label)))"

section \<open>The durable store adapter\<close>

record user =
  from_id :: int
  from_username :: "jsstring option"
  from_first_name :: "jsstring option"
  from_last_name :: "jsstring option"

record cb_message =
  message_id :: int
  message_chat_id :: "int option"

record ctx =
  ctx_from :: "user option"                 \<comment> \<open>\<^verbatim>\<open>ctx.from\<close>\<close>
  ctx_chat_id :: "int option"               \<comment> \<open>\<^verbatim>\<open>ctx.chat?.id\<close>\<close>
  ctx_cb_message :: "cb_message option"     \<comment> \<open>\<^verbatim>\<open>ctx.callbackQuery?.message\<close>\<close>
  ctx_match1 :: jsstring                    \<comment> \<open>\<^verbatim>\<open>ctx.match[1]\<close>\<close>

record meta =
  m_user_id :: "int option"
  m_username :: "jsstring option"
  m_first_name :: "jsstring option"
  m_last_name :: "jsstring option"

record patch =
  p_status :: "jsstring option"
  p_frequency :: "jsstring option"
  p_last_step :: "jsstring option"

text \<open>A row of the table \<^verbatim>\<open>leads\<close>, as \<^verbatim>\<open>select("*")\<close> returns it.\<close>

record lead =
  lead_user_id :: "int option"
  lead_username :: "jsstring option"
  lead_status :: "jsstring option"
  lead_frequency :: "jsstring option"

text \<open>The response object of a query: \<^verbatim>\<open>{ data, error }\<close>.\<close>

record response =
  res_error :: bool           \<comment> \<open>\<^verbatim>\<open>res.error\<close> is set\<close>
  res_data :: "lead option"

text \<open>
  The Supabase client is an external collaborator: what building a query and awaiting it
  does is a parameter. \<open>None\<close> for the client is \<^verbatim>\<open>supabase = null\<close> (no credentials). A
  resolved value \<open>None\<close> is a \<^verbatim>\<open>null\<close>/\<^verbatim>\<open>undefined\<close> response (\<^verbatim>\<open>res?.error\<close> allows it).
\<close>

record client =
  upsert_query :: "meta \<times> patch \<Rightarrow> response option promise call"
  select_query :: "int \<Rightarrow> response option promise call"

definition userMeta :: "ctx \<Rightarrow> meta" where
  "userMeta c =
     (case ctx_from c of
        None \<Rightarrow> \<lparr>m_user_id = None, m_username = None, m_first_name = None, m_last_name = None\<rparr>
      | Some u \<Rightarrow>
          \<lparr>m_user_id = Some (from_id u),
           m_username = or_str (from_username u) None,
           m_first_name = or_str (from_first_name u) None,
           m_last_name = or_str (from_last_name u) None\<rparr>)"

text \<open>
  An \<^verbatim>\<open>async\<close> function returns a promise: the model gives the time after which that
  promise settles, and how. Inside \<^verbatim>\<open>try { await p } catch (e) { ... }\<close> a rejection of
  \<open>p\<close> and a synchronous throw both end in the \<^verbatim>\<open>catch\<close>, which only logs; awaiting a
  promise that never settles would leave the function suspended for ever (\<open>None\<close>).
\<close>

definition upsertLead :: "client option \<Rightarrow> ctx \<Rightarrow> patch \<Rightarrow> unit promise" where
  "upsertLead supabase c pt =
     (case supabase of
        None \<Rightarrow> Some (0, Fulfilled ())
      | Some sb \<Rightarrow>
          (let payload = (userMeta c, pt) in
           case upsert_query sb payload of
             Throws e \<Rightarrow> Some (0, Fulfilled ())
           | Returns q \<Rightarrow>
               (case withTimeout q 4000 (ascii ''supabase upsert timeout'') of
                  None \<Rightarrow> None
                | Some (t, Fulfilled r) \<Rightarrow> Some (t, Fulfilled ())
                | Some (t, Rejected e) \<Rightarrow> Some (t, Fulfilled ()))))"

definition getLead :: "client option \<Rightarrow> int \<Rightarrow> lead option promise" where
  "getLead supabase userId =
     (case supabase of
        None \<Rightarrow> Some (0, Fulfilled None)
      | Some sb \<Rightarrow>
          (case select_query sb userId of
             Throws e \<Rightarrow> Some (0, Fulfilled None)
           | Returns q \<Rightarrow>
               (case withTimeout q 4000 (ascii ''supabase select timeout'') of
                  None \<Rightarrow> None
                | Some (t, Rejected e) \<Rightarrow> Some (t, Fulfilled None)
                | Some (t, Fulfilled None) \<Rightarrow> Some (t, Fulfilled None)
                | Some (t, Fulfilled (Some res)) \<Rightarrow>
                    if res_error res then Some (t, Fulfilled None)
                    else Some (t, Fulfilled (res_data res)))))"

section \<open>The Telegram transport and the bot's state\<close>

datatype button =
    CallbackBtn jsstring jsstring     \<comment> \<open>\<^verbatim>\<open>Markup.button.callback(text, data)\<close>\<close>
  | UrlBtn jsstring jsstring          \<comment> \<open>\<^verbatim>\<open>Markup.button.url(text, url)\<close>\<close>

type_synonym markup = "button list list"

datatype chat_ref =
    ChatNum int                 \<comment> \<open>a numeric chat identifier taken from the update\<close>
  | ChatEnv "jsstring option"   \<comment> \<open>\<^verbatim>\<open>ADMIN_CHAT_ID\<close>, as the environment has it\<close>

datatype tg_call =
    AnswerCbQuery jsstring
  | Reply jsstring "markup option"
  | EditMessageText jsstring "markup option"
  | SendMessage chat_ref jsstring "markup option"

text \<open>
  Telegram is an external collaborator: what a call does (throw, or return a promise that
  is fulfilled, is rejected or never settles) is a parameter of the model.
\<close>

type_synonym telegram = "tg_call \<Rightarrow> unit promise call"

record env =
  telegram :: telegram
  supabase :: "client option"
  ADMIN_CHAT_ID :: "jsstring option"
  MARIA_CONTACT_URL :: "jsstring option"

definition hasAdmin :: "env \<Rightarrow> bool" where
  "hasAdmin ev = truthy_str (ADMIN_CHAT_ID ev)"

text \<open>The RAM cache: \<^verbatim>\<open>user_id -> { status, frequency }\<close>.\<close>

record mem =
  mem_status :: "jsstring option"
  mem_frequency :: "jsstring option"

text \<open>
  The state a handler works on: the cache, the Telegram calls made so far (in order,
  whatever their outcome) and the rejections of promises nobody handles. Console output
  is not part of the state: a \<^verbatim>\<open>catch\<close> that only logs leaves the state as it is. Events
  are handled one after the other; a background task is run to its end where it starts.
\<close>

record bot =
  cache :: "int \<rightharpoonup> mem"
  calls :: "tg_call list"
  unhandled :: "js_error list"

datatype outcome =
    Completed               \<comment> \<open>the handler's promise is fulfilled\<close>
  | Raised js_error         \<comment> \<open>the handler's promise is rejected: the error leaves the
                                handler (the middleware of line 210 logs it)\<close>
  | Suspended               \<comment> \<open>the handler waits on a promise that never settles\<close>

datatype 'a awaited = Value 'a | Raise js_error | Forever

definition await :: "'a promise call \<Rightarrow> 'a awaited" where
  \<comment> \<open>\<^verbatim>\<open>await f(...)\<close>: a synchronous throw and a rejection both raise at the \<^verbatim>\<open>await\<close>\<close>
  "await r =
     (case r of
        Throws e \<Rightarrow> Raise e
      | Returns None \<Rightarrow> Forever
      | Returns (Some (t, Fulfilled v)) \<Rightarrow> Value v
      | Returns (Some (t, Rejected e)) \<Rightarrow> Raise e)"

definition adopt :: "unit promise \<Rightarrow> outcome" where
  \<comment> \<open>an \<^verbatim>\<open>async\<close> function that returns the promise \<open>p\<close> settles as \<open>p\<close> does\<close>
  "adopt p =
     (case p of
        None \<Rightarrow> Suspended
      | Some (t, Fulfilled v) \<Rightarrow> Completed
      | Some (t, Rejected e) \<Rightarrow> Raised e)"

definition do_call :: "env \<Rightarrow> tg_call \<Rightarrow> bot \<Rightarrow> unit promise call \<times> bot" where
  "do_call ev k s = (telegram ev k, s\<lparr>calls := calls s @ [k]\<rparr>)"

definition fireAndForget :: "unit promise \<Rightarrow> bot \<Rightarrow> bot" where
  \<comment> \<open>\<^verbatim>\<open>Promise.resolve(p).catch(() => {})\<close>: a rejection is swallowed\<close>
  "fireAndForget p s = s"

definition detached :: "unit promise \<Rightarrow> bot \<Rightarrow> bot" where
  \<comment> \<open>a promise that is neither awaited nor given a handler: a rejection stays unhandled\<close>
  "detached p s =
     (case p of
        Some (t, Rejected e) \<Rightarrow> s\<lparr>unhandled := unhandled s @ [e]\<rparr>
      | _ \<Rightarrow> s)"

definition mem_or_empty :: "(int \<rightharpoonup> mem) \<Rightarrow> int \<Rightarrow> mem" where
  \<comment> \<open>\<^verbatim>\<open>cache.get(id) || {}\<close>\<close>
  "mem_or_empty ch k =
     (case ch k of None \<Rightarrow> \<lparr>mem_status = None, mem_frequency = None\<rparr> | Some m \<Rightarrow> m)"

definition menuFrequencies :: markup where
  "menuFrequencies =
     [[CallbackBtn FREQUENCY_rare (ascii ''freq:rare'')],
      [CallbackBtn FREQUENCY_weekly (ascii ''freq:weekly'')],
      [CallbackBtn FREQUENCY_daily (ascii ''freq:daily'')]]"

definition msg_ok :: jsstring where
  "msg_ok = [1054, 1082]"

definition msg_accepted :: jsstring where
  "msg_accepted = [1055, 1088, 1080, 1085, 1103, 1090, 1086]"

definition state_retry :: jsstring where
  \<comment> \<open>the fallback text of the state handler, line 317\<close>
  "state_retry =
    [1063, 1090, 1086, 45, 1090, 1086, 32, 1087, 1086, 1096, 1083, 1086, 32, 1085, 1077, 32,
     1090, 1072, 1082, 46, 32, 1055, 1086, 1087, 1088, 1086, 1073, 1091, 1081, 1090, 1077, 32,
     1077, 1097, 1105, 32, 1088, 1072, 1079, 58, 32, 47, 115, 116, 97, 114, 116]"

definition done_retry :: jsstring where
  \<comment> \<open>the fallback text of the done handler, line 328\<close>
  "done_retry =
    [1053, 1077, 32, 1087, 1086, 1083, 1091, 1095, 1080, 1083, 1086, 1089, 1100, 32, 1087, 1088,
     1086, 1076, 1086, 1083, 1078, 1080, 1090, 1100, 46, 32, 1044, 1072, 1074, 1072, 1081, 1090,
     1077, 32, 1079, 1072, 1085, 1086, 1074, 1086, 58, 32, 47, 115, 116, 97, 114, 116]"

definition finalText :: jsstring where
  \<comment> \<open>line 361\<close>
  "finalText =
    [1055, 1088, 1080, 1085, 1103, 1090, 1086, 32, 9989, 32, 1052, 1072, 1088, 1080, 1103, 32,
     1089, 1074, 1103, 1078, 1077, 1090, 1089, 1103, 32, 1089, 32, 1074, 1072, 1084, 1080, 32,
     1074, 32, 1073, 1083, 1080, 1078, 1072, 1081, 1096, 1077, 1077, 32, 1074, 1088, 1077, 1084,
     1103, 46]"

definition write_maria :: jsstring where
  \<comment> \<open>the label of the URL button, line 365\<close>
  "write_maria = [1053, 1072, 1087, 1080, 1089, 1072, 1090, 1100, 32, 1052, 1072, 1088, 1080, 1080]"

definition no_username :: jsstring where
  \<comment> \<open>the placeholder \<^verbatim>\<open>(... username)\<close> of lines 248 and 386\<close>
  "no_username = [40, 1073, 1077, 1079, 32, 117, 115, 101, 114, 110, 97, 109, 101, 41]"

definition dash :: jsstring where
  \<comment> \<open>the em dash used for an unknown state or frequency\<close>
  "dash = [8212]"

section \<open>The delivery fallback sender\<close>

definition final_reply :: "env \<Rightarrow> jsstring \<Rightarrow> markup option \<Rightarrow> bot \<Rightarrow> bool option \<times> bot" where
  \<comment> \<open>step 3: the plain reply; \<open>None\<close> is a function that never returns\<close>
  "final_reply ev text extra s =
     (let (r, s') = do_call ev (Reply text extra) s in
      case await r of
        Value v \<Rightarrow> (Some True, s')
      | Raise e \<Rightarrow> (Some False, s')
      | Forever \<Rightarrow> (None, s'))"

definition final_send ::
  "env \<Rightarrow> int option \<Rightarrow> jsstring \<Rightarrow> markup option \<Rightarrow> bot \<Rightarrow> bool option \<times> bot" where
  \<comment> \<open>step 2: a new message to the chat \<open>cid\<close>; a falsy \<open>cid\<close> throws before any call\<close>
  "final_send ev cid text extra s =
     (case cid of
        None \<Rightarrow> final_reply ev text extra s
      | Some n \<Rightarrow>
          if n = 0 then final_reply ev text extra s
          else
            (let (r, s') = do_call ev (SendMessage (ChatNum n) text extra) s in
             case await r of
               Value v \<Rightarrow> (Some True, s')
             | Raise e \<Rightarrow> final_reply ev text extra s'
             | Forever \<Rightarrow> (None, s')))"

definition chatId :: "ctx \<Rightarrow> int option" where
  \<comment> \<open>\<^verbatim>\<open>ctx.chat?.id ?? ctx.callbackQuery?.message?.chat?.id ?? ctx.from?.id\<close>\<close>
  "chatId c =
     nullish (ctx_chat_id c)
       (nullish (Option.bind (ctx_cb_message c) message_chat_id)
          (map_option from_id (ctx_from c)))"

definition sendFinalToUser ::
  "env \<Rightarrow> ctx \<Rightarrow> jsstring \<Rightarrow> markup option \<Rightarrow> bot \<Rightarrow> bool option \<times> bot" where
  \<comment> \<open>lines 172-207; step 1 edits the message that carried the button, if there is one\<close>
  "sendFinalToUser ev c text extra s =
     (if truthy_num (map_option message_id (ctx_cb_message c)) then
        (let (r, s') = do_call ev (EditMessageText text extra) s in
         case await r of
           Value v \<Rightarrow> (Some True, s')
         | Raise e \<Rightarrow> final_send ev (chatId c) text extra s'
         | Forever \<Rightarrow> (None, s'))
      else final_send ev (chatId c) text extra s)"

section \<open>The operator summary\<close>

definition statusHuman :: "jsstring option \<Rightarrow> jsstring" where
  \<comment> \<open>\<^verbatim>\<open>statusKey ? (COPY.states[statusKey]?.label || statusKey) : dash\<close>\<close>
  "statusHuman statusKey =
     (case statusKey of
        None \<Rightarrow> dash
      | Some k \<Rightarrow>
          if k = [] then dash
          else (case COPY_states k of
                  None \<Rightarrow> k
                | Some b \<Rightarrow> if b_label b = [] then k else b_label b))"

definition freqHuman :: "jsstring option \<Rightarrow> jsstring" where
  \<comment> \<open>\<^verbatim>\<open>freqKey ? (FREQUENCY[freqKey] || freqKey) : dash\<close>\<close>
  "freqHuman freqKey =
     (case freqKey of
        None \<Rightarrow> dash
      | Some k \<Rightarrow>
          if k = [] then dash
          else (case FREQUENCY k of
                  None \<Rightarrow> k
                | Some l \<Rightarrow> if l = [] then k else l))"

definition or_int :: "int option \<Rightarrow> int \<Rightarrow> int" where
  \<comment> \<open>\<^verbatim>\<open>a || b\<close> where \<open>b\<close> is a number\<close>
  "or_int a b = (case a of None \<Rightarrow> b | Some n \<Rightarrow> if n = 0 then b else n)"

definition buildAdminText ::
  "jsstring option \<Rightarrow> int \<Rightarrow> jsstring \<Rightarrow> jsstring \<Rightarrow> jsstring" where
  "buildAdminText uname_opt userId sHuman fHuman =
     (let uname =
            (case uname_opt of
               None \<Rightarrow> no_username
             | Some n \<Rightarrow> if n = [] then no_username else 64 # n);
          profileLink =
            (case uname_opt of
               None \<Rightarrow> None
             | Some n \<Rightarrow> if n = [] then None else Some (ascii ''https://t.me/'' @ n))
      in
      [1053, 1086, 1074, 1099, 1081, 32, 1083, 1080, 1076, 32, 1080, 1079, 32, 1073, 1086, 1090,
       1072, 10] @
      [1055, 1086, 1083, 1100, 1079, 1086, 1074, 1072, 1090, 1077, 1083, 1100, 58, 32] @ uname @
        ascii '' (id: '' @ num_str userId @ [41, 10] @
      [1057, 1086, 1089, 1090, 1086, 1103, 1085, 1080, 1077, 58, 32] @ sHuman @ [10] @
      [1063, 1072, 1089, 1090, 1086, 1090, 1072, 58, 32] @ fHuman @ [10] @
      (case profileLink of
         Some l \<Rightarrow> [1055, 1088, 1086, 1092, 1080, 1083, 1100, 58, 32] @ l @ [10]
       | None \<Rightarrow> []))"

definition notifyAdminInBackground :: "env \<Rightarrow> ctx \<Rightarrow> bot \<Rightarrow> outcome \<times> bot" where
  \<comment> \<open>lines 260-286; no handler calls it\<close>
  "notifyAdminInBackground ev c s =
     (if \<not> hasAdmin ev then (Completed, s)
      else
        (case ctx_from c of
           None \<Rightarrow> (Raised TypeError, s)
         | Some u \<Rightarrow>
             (let m = mem_or_empty (cache s) (from_id u) in
              case await (Returns (getLead (supabase ev) (from_id u))) of
                Forever \<Rightarrow> (Suspended, s)
              | Raise e \<Rightarrow> (Raised e, s)
              | Value ld \<Rightarrow>
                  (let statusKey = or_str (Option.bind ld lead_status) (mem_status m);
                       freqKey = or_str (Option.bind ld lead_frequency) (mem_frequency m);
                       sHuman = statusHuman statusKey;
                       fHuman = freqHuman freqKey;
                       uname_opt =
                         or_str (or_str (Option.bind ld lead_username) (from_username u)) None;
                       userId = or_int (Option.bind ld lead_user_id) (from_id u);
                       adminText = buildAdminText uname_opt userId sHuman fHuman;
                       (r, s') =
                         do_call ev (SendMessage (ChatEnv (ADMIN_CHAT_ID ev)) adminText None) s
                   in case await r of
                        Value v \<Rightarrow> (Completed, s')
                      | Raise e \<Rightarrow> (Completed, s')
                      | Forever \<Rightarrow> (Suspended, s')))))"

section \<open>The scenario\<close>

definition state_catch :: "env \<Rightarrow> bot \<Rightarrow> outcome \<times> bot" where
  \<comment> \<open>\<^verbatim>\<open>catch (e) { ...; return ctx.reply(<retry text>) }\<close> of the state handler\<close>
  "state_catch ev s =
     (let (r, s') = do_call ev (Reply state_retry None) s in
      case r of
        Throws e \<Rightarrow> (Raised e, s')
      | Returns p \<Rightarrow> (adopt p, s'))"

definition state_body :: "env \<Rightarrow> ctx \<Rightarrow> bot \<Rightarrow> outcome \<times> bot" where
  \<comment> \<open>the \<^verbatim>\<open>try\<close> block of lines 296-313; \<open>Raised e\<close> is an error thrown inside it.
      The pause of 2000 ms before the first reply changes no state.\<close>
  "state_body ev c s =
     (let (a, s1) = do_call ev (AnswerCbQuery msg_ok) s in
      case a of
        Throws e \<Rightarrow> (Raised e, s1)
      | Returns p \<Rightarrow>
          (let st = ctx_match1 c;
               blk = COPY_states st
           in
           case ctx_from c of
             None \<Rightarrow> (Raised TypeError, s1)
           | Some u \<Rightarrow>
               (let s2 = s1\<lparr>cache := (cache s1)(from_id u \<mapsto>
                             (mem_or_empty (cache s1) (from_id u))\<lparr>mem_status := Some st\<rparr>)\<rparr>;
                    s3 = fireAndForget
                           (upsertLead (supabase ev) c
                              \<lparr>p_status = Some st, p_frequency = None,
                               p_last_step = Some (ascii ''technique'')\<rparr>) s2
                in
                case blk of
                  None \<Rightarrow> (Raised TypeError, s3)
                | Some b \<Rightarrow>
                    (let (r1, s4) = do_call ev (Reply (b_explain b) None) s3 in
                     case await r1 of
                       Raise e \<Rightarrow> (Raised e, s4)
                     | Forever \<Rightarrow> (Suspended, s4)
                     | Value v \<Rightarrow>
                         (let (r2, s5) =
                                do_call ev
                                  (Reply (b_technique b)
                                     (Some [[CallbackBtn BTN_done (ascii ''done'')]])) s4
                          in
                          case await r2 of
                            Raise e \<Rightarrow> (Raised e, s5)
                          | Forever \<Rightarrow> (Suspended, s5)
                          | Value v \<Rightarrow> (Completed, s5))))))"

definition on_state :: "env \<Rightarrow> ctx \<Rightarrow> bot \<Rightarrow> outcome \<times> bot" where
  \<comment> \<open>\<^verbatim>\<open>bot.action(/^state:(anxiety|anger|apathy)$/, ...)\<close>, lines 295-319\<close>
  "on_state ev c s =
     (case state_body ev c s of
        (Raised e, s') \<Rightarrow> state_catch ev s'
      | (Completed, s') \<Rightarrow> (Completed, s')
      | (Suspended, s') \<Rightarrow> (Suspended, s'))"

definition done_catch :: "env \<Rightarrow> bot \<Rightarrow> outcome \<times> bot" where
  "done_catch ev s =
     (let (r, s') = do_call ev (Reply done_retry None) s in
      case r of
        Throws e \<Rightarrow> (Raised e, s')
      | Returns p \<Rightarrow> (adopt p, s'))"

definition done_body :: "env \<Rightarrow> ctx \<Rightarrow> bot \<Rightarrow> (js_error + unit promise) \<times> bot" where
  \<comment> \<open>the \<^verbatim>\<open>try\<close> block of lines 322-325: it throws (\<open>Inl\<close>) or returns the promise of
      \<^verbatim>\<open>ctx.reply\<close> (\<open>Inr\<close>) without awaiting it\<close>
  "done_body ev c s =
     (let (a, s1) = do_call ev (AnswerCbQuery msg_ok) s in
      case a of
        Throws e \<Rightarrow> (Inl e, s1)
      | Returns p \<Rightarrow>
          (let s2 = fireAndForget
                      (upsertLead (supabase ev) c
                         \<lparr>p_status = None, p_frequency = None,
                          p_last_step = Some (ascii ''frequency'')\<rparr>) s1;
               (r, s3) = do_call ev (Reply COPY_afterTechnique (Some menuFrequencies)) s2
           in
           case r of
             Throws e \<Rightarrow> (Inl e, s3)
           | Returns q \<Rightarrow> (Inr q, s3)))"

definition on_done :: "env \<Rightarrow> ctx \<Rightarrow> bot \<Rightarrow> outcome \<times> bot" where
  \<comment> \<open>\<^verbatim>\<open>bot.action("done", ...)\<close>, lines 321-330: the returned promise settles outside the
      \<^verbatim>\<open>try\<close>, so its rejection does not reach the \<^verbatim>\<open>catch\<close>\<close>
  "on_done ev c s =
     (case done_body ev c s of
        (Inl e, s') \<Rightarrow> done_catch ev s'
      | (Inr q, s') \<Rightarrow> (adopt q, s'))"

definition on_freq :: "env \<Rightarrow> ctx \<Rightarrow> bot \<Rightarrow> outcome \<times> bot" where
  \<comment> \<open>\<^verbatim>\<open>bot.action(/^freq:(rare|weekly|daily)$/, ...)\<close>, lines 332-351\<close>
  "on_freq ev c s =
     (let (a, s1) = do_call ev (AnswerCbQuery msg_ok) s in
      case a of
        Throws e \<Rightarrow> (Raised e, s1)
      | Returns p \<Rightarrow>
          (let fr = ctx_match1 c in
           case ctx_from c of
             None \<Rightarrow> (Raised TypeError, s1)
           | Some u \<Rightarrow>
               (let s2 = s1\<lparr>cache := (cache s1)(from_id u \<mapsto>
                             (mem_or_empty (cache s1) (from_id u))\<lparr>mem_frequency := Some fr\<rparr>)\<rparr>;
                    s3 = detached
                           (upsertLead (supabase ev) c
                              \<lparr>p_status = None, p_frequency = Some fr,
                               p_last_step = Some (ascii ''offer'')\<rparr>) s2;
                    buttons = [[CallbackBtn BTN_book (ascii ''book'')]];
                    offerText = (if fr = ascii ''rare'' then COPY_offerRare else COPY_offerRegular);
                    (r, s4) = do_call ev (Reply offerText (Some buttons)) s3
                in
                case r of
                  Throws e \<Rightarrow> (Raised e, s4)
                | Returns None \<Rightarrow> (Suspended, s4)
                | Returns (Some (t, Fulfilled v)) \<Rightarrow> (Completed, s4)
                | Returns (Some (t, Rejected e)) \<Rightarrow> (Completed, s4))))"

definition book_notify :: "env \<Rightarrow> ctx \<Rightarrow> bot \<Rightarrow> bot" where
  \<comment> \<open>the background function of lines 372-402; every error in it is caught and logged.
      It reads the cache after \<open>getLead\<close> has answered; \<open>s\<close> is the state at that moment
      (no other event is interleaved in this model).\<close>
  "book_notify ev c s =
     (case ctx_from c of
        None \<Rightarrow> s
      | Some u \<Rightarrow>
          (case await (Returns (getLead (supabase ev) (from_id u))) of
             Forever \<Rightarrow> s
           | Raise e \<Rightarrow> s
           | Value ld \<Rightarrow>
               (let m = mem_or_empty (cache s) (from_id u);
                    statusKey = or_str (Option.bind ld lead_status) (mem_status m);
                    freqKey = or_str (Option.bind ld lead_frequency) (mem_frequency m);
                    sHuman = statusHuman statusKey;
                    fHuman = freqHuman freqKey;
                    uname =
                      (case or_str (Option.bind ld lead_username) (from_username u) of
                         None \<Rightarrow> no_username
                       | Some n \<Rightarrow> if n = [] then no_username else 64 # n);
                    userId = or_int (Option.bind ld lead_user_id) (from_id u);
                    adminText =
                      [1053, 1086, 1074, 1099, 1081, 32, 1083, 1080, 1076, 32, 1080, 1079, 32,
                       1073, 1086, 1090, 1072, 10] @
                      [1055, 1086, 1083, 1100, 1079, 1086, 1074, 1072, 1090, 1077, 1083, 1100,
                       58, 32] @ uname @ ascii '' (id: '' @ num_str userId @ [41, 10] @
                      [1057, 1086, 1089, 1090, 1086, 1103, 1085, 1080, 1077, 58, 32] @ sHuman @
                        [10] @
                      [1063, 1072, 1089, 1090, 1086, 1090, 1072, 58, 32] @ fHuman @ [10]
                in
                if hasAdmin ev
                then snd (do_call ev (SendMessage (ChatEnv (ADMIN_CHAT_ID ev)) adminText None) s)
                else s)))"

definition on_book :: "env \<Rightarrow> ctx \<Rightarrow> bot \<Rightarrow> outcome \<times> bot" where
  \<comment> \<open>\<^verbatim>\<open>bot.action("book", ...)\<close>, lines 354-403\<close>
  "on_book ev c s =
     (let (a, s1) = do_call ev (AnswerCbQuery msg_accepted) s in
      case a of
        Throws e \<Rightarrow> (Raised e, s1)
      | Returns p \<Rightarrow>
          (let s2 = detached
                      (upsertLead (supabase ev) c
                         \<lparr>p_status = None, p_frequency = None,
                          p_last_step = Some (ascii ''booked'')\<rparr>) s1;
               extra =
                 (case MARIA_CONTACT_URL ev of
                    None \<Rightarrow> None
                  | Some url \<Rightarrow> if url = [] then None else Some [[UrlBtn write_maria url]]);
               (sent, s3) = sendFinalToUser ev c finalText extra s2
           in
           case sent of
             None \<Rightarrow> (Suspended, s3)
           | Some b \<Rightarrow> (Completed, book_notify ev c s3)))"

section \<open>Vocabulary of the properties\<close>

definition fulfilled :: "env \<Rightarrow> tg_call \<Rightarrow> bool" where
  \<comment> \<open>the awaited call succeeds\<close>
  "fulfilled ev k =
     (case await (telegram ev k) of Value v \<Rightarrow> True | Raise e \<Rightarrow> False | Forever \<Rightarrow> False)"

definition failed :: "env \<Rightarrow> tg_call \<Rightarrow> bool" where
  \<comment> \<open>the awaited call throws or is rejected\<close>
  "failed ev k =
     (case await (telegram ev k) of Value v \<Rightarrow> False | Raise e \<Rightarrow> True | Forever \<Rightarrow> False)"

definition new_calls :: "bot \<Rightarrow> bot \<Rightarrow> tg_call list" where
  \<comment> \<open>the Telegram calls made between the states \<open>s\<close> and \<open>s'\<close>\<close>
  "new_calls s s' = drop (length (calls s)) (calls s')"

fun replies :: "tg_call list \<Rightarrow> (jsstring \<times> markup option) list" where
  \<comment> \<open>the replies among some calls: text and keyboard\<close>
  "replies [] = []"
| "replies (Reply t x # ks) = (t, x) # replies ks"
| "replies (AnswerCbQuery t # ks) = replies ks"
| "replies (EditMessageText t x # ks) = replies ks"
| "replies (SendMessage m t x # ks) = replies ks"

definition pending :: "env \<Rightarrow> tg_call \<Rightarrow> bool" where
  \<comment> \<open>the awaited call never settles\<close>
  "pending ev k =
     (case await (telegram ev k) of Value v \<Rightarrow> False | Raise e \<Rightarrow> False | Forever \<Rightarrow> True)"

definition has_message :: "ctx \<Rightarrow> bool" where
  \<comment> \<open>the triggering interaction carries a message that can be edited\<close>
  "has_message c = truthy_num (map_option message_id (ctx_cb_message c))"

definition attempts :: "ctx \<Rightarrow> jsstring \<Rightarrow> markup option \<Rightarrow> tg_call list" where
  \<comment> \<open>the spec's ordered list of delivery strategies (sections 4.4 and 9): edit the message of
      the interaction if there is one, send to the resolved chat identifier (a missing or
      zero identifier fails before any call), reply on the context\<close>
  "attempts c msg extra =
     (if has_message c then [EditMessageText msg extra] else []) @
     (case chatId c of
        None \<Rightarrow> []
      | Some n \<Rightarrow> if n = 0 then [] else [SendMessage (ChatNum n) msg extra]) @
     [Reply msg extra]"

fun try_in_order :: "env \<Rightarrow> tg_call list \<Rightarrow> bool option \<times> tg_call list" where
  \<comment> \<open>the spec's strategy list: the attempts are made in sequence and the first success
      ends them; the result is \<^verbatim>\<open>true\<close> on a success, \<^verbatim>\<open>false\<close> when all are exhausted
      and \<open>None\<close> when an attempt never settles; with it, the calls that were made\<close>
  "try_in_order ev [] = (Some False, [])"
| "try_in_order ev (k # ks) =
     (case await (telegram ev k) of
        Value v \<Rightarrow> (Some True, [k])
      | Forever \<Rightarrow> (None, [k])
      | Raise e \<Rightarrow> (fst (try_in_order ev ks), k # snd (try_in_order ev ks)))"

definition store_record :: "env \<Rightarrow> int \<Rightarrow> lead option" where
  \<comment> \<open>the record \<open>getLead\<close> hands to its caller; \<open>None\<close> is its "no data"\<close>
  "store_record ev uid =
     (case getLead (supabase ev) uid of
        None \<Rightarrow> None
      | Some (t, Fulfilled v) \<Rightarrow> v
      | Some (t, Rejected e) \<Rightarrow> None)"

definition per_field ::
  "lead option \<Rightarrow> (lead \<Rightarrow> jsstring option) \<Rightarrow> jsstring option \<Rightarrow> jsstring option" where
  \<comment> \<open>the spec's rule for one field: the store's value when the store returned a record
      that has the field (not null, not the empty string), the cached value otherwise\<close>
  "per_field rec fld cached =
     (case rec of
        None \<Rightarrow> cached
      | Some l \<Rightarrow>
          (case fld l of
             None \<Rightarrow> cached
           | Some v \<Rightarrow> if v = [] then cached else Some v))"

definition summary_lines :: "jsstring \<Rightarrow> int \<Rightarrow> jsstring \<Rightarrow> jsstring \<Rightarrow> jsstring" where
  \<comment> \<open>the four lines of the operator summary: title, user and identifier, state, frequency\<close>
  "summary_lines uname uid sHuman fHuman =
     [1053, 1086, 1074, 1099, 1081, 32, 1083, 1080, 1076, 32, 1080, 1079, 32, 1073, 1086, 1090,
      1072, 10] @
     [1055, 1086, 1083, 1100, 1079, 1086, 1074, 1072, 1090, 1077, 1083, 1100, 58, 32] @ uname @
       ascii '' (id: '' @ num_str uid @ [41, 10] @
     [1057, 1086, 1089, 1090, 1086, 1103, 1085, 1080, 1077, 58, 32] @ sHuman @ [10] @
     [1063, 1072, 1089, 1090, 1086, 1090, 1072, 58, 32] @ fHuman @ [10]"

definition shown_name :: "jsstring option \<Rightarrow> jsstring" where
  \<comment> \<open>the username with its \<open>@\<close>, or the placeholder\<close>
  "shown_name n =
     (case n of None \<Rightarrow> no_username | Some x \<Rightarrow> if x = [] then no_username else 64 # x)"

definition profile_line :: "jsstring \<Rightarrow> jsstring" where
  \<comment> \<open>the fifth line that \<open>buildAdminText\<close> adds for a user with a username\<close>
  "profile_line n =
     [1055, 1088, 1086, 1092, 1080, 1083, 1100, 58, 32] @ ascii ''https://t.me/'' @ n @ [10]"

subsection \<open>Concrete environments and events\<close>

definition ok :: "unit promise call" where
  "ok = Returns (Some (0, Fulfilled ()))"

definition rejected :: "unit promise call" where
  "rejected = Returns (Some (0, Rejected TransportError))"

definition tg_all_ok :: telegram where
  "tg_all_ok k = ok"

definition tg_all_rejected :: telegram where
  "tg_all_rejected k = rejected"

definition tg_only_reply :: telegram where
  \<comment> \<open>editing and sending fail, a plain reply goes through\<close>
  "tg_only_reply k =
     (case k of
        AnswerCbQuery t \<Rightarrow> ok
      | Reply t x \<Rightarrow> ok
      | EditMessageText t x \<Rightarrow> rejected
      | SendMessage m t x \<Rightarrow> rejected)"

definition tg_edit_rejected :: telegram where
  \<comment> \<open>editing fails, everything else goes through\<close>
  "tg_edit_rejected k =
     (case k of
        AnswerCbQuery t \<Rightarrow> ok
      | Reply t x \<Rightarrow> ok
      | EditMessageText t x \<Rightarrow> rejected
      | SendMessage m t x \<Rightarrow> ok)"

definition tg_send_pending :: telegram where
  \<comment> \<open>editing fails and a direct send never settles\<close>
  "tg_send_pending k =
     (case k of
        AnswerCbQuery t \<Rightarrow> ok
      | Reply t x \<Rightarrow> ok
      | EditMessageText t x \<Rightarrow> rejected
      | SendMessage m t x \<Rightarrow> Returns None)"

definition tg_reply_rejected :: telegram where
  "tg_reply_rejected k =
     (case k of
        AnswerCbQuery t \<Rightarrow> ok
      | Reply t x \<Rightarrow> rejected
      | EditMessageText t x \<Rightarrow> ok
      | SendMessage m t x \<Rightarrow> ok)"

definition tg_reply_throws :: telegram where
  "tg_reply_throws k =
     (case k of
        AnswerCbQuery t \<Rightarrow> ok
      | Reply t x \<Rightarrow> Throws TransportError
      | EditMessageText t x \<Rightarrow> ok
      | SendMessage m t x \<Rightarrow> ok)"

definition tg_only_retry :: telegram where
  \<comment> \<open>every reply is rejected but the two retry texts\<close>
  "tg_only_retry k =
     (case k of
        AnswerCbQuery t \<Rightarrow> ok
      | Reply t x \<Rightarrow> if t = state_retry then ok else if t = done_retry then ok else rejected
      | EditMessageText t x \<Rightarrow> ok
      | SendMessage m t x \<Rightarrow> ok)"

definition tg_ack_throws :: telegram where
  "tg_ack_throws k =
     (case k of
        AnswerCbQuery t \<Rightarrow> Throws TransportError
      | Reply t x \<Rightarrow> ok
      | EditMessageText t x \<Rightarrow> ok
      | SendMessage m t x \<Rightarrow> ok)"

definition store_silent :: client where
  \<comment> \<open>a store that never answers\<close>
  "store_silent = \<lparr>upsert_query = (\<lambda>p. Returns None), select_query = (\<lambda>i. Returns None)\<rparr>"

definition store_slow :: client where
  \<comment> \<open>a store that answers after five seconds\<close>
  "store_slow =
     \<lparr>upsert_query = (\<lambda>p. Returns (Some (5000, Fulfilled None))),
      select_query = (\<lambda>i. Returns (Some (5000, Fulfilled (Some \<lparr>res_error = False,
                        res_data = Some \<lparr>lead_user_id = Some i, lead_username = None,
                          lead_status = None, lead_frequency = None\<rparr>\<rparr>))))\<rparr>"

definition store_broken :: client where
  \<comment> \<open>a store whose client throws on upsert and rejects on select\<close>
  "store_broken =
     \<lparr>upsert_query = (\<lambda>p. Throws StoreError),
      select_query = (\<lambda>i. Returns (Some (30, Rejected StoreError)))\<rparr>"

definition store_error :: client where
  \<comment> \<open>a store that answers with \<^verbatim>\<open>{ error }\<close>\<close>
  "store_error =
     \<lparr>upsert_query = (\<lambda>p. Returns (Some (30, Fulfilled (Some \<lparr>res_error = True, res_data = None\<rparr>)))),
      select_query = (\<lambda>i. Returns (Some (30, Fulfilled (Some \<lparr>res_error = True, res_data = None\<rparr>))))\<rparr>"

definition store_empty :: client where
  \<comment> \<open>a store without a row for the user\<close>
  "store_empty =
     \<lparr>upsert_query = (\<lambda>p. Returns (Some (30, Fulfilled (Some \<lparr>res_error = False, res_data = None\<rparr>)))),
      select_query = (\<lambda>i. Returns (Some (30, Fulfilled (Some \<lparr>res_error = False, res_data = None\<rparr>))))\<rparr>"

definition store_anger :: client where
  \<comment> \<open>a store whose row has a status and no frequency\<close>
  "store_anger =
     \<lparr>upsert_query = (\<lambda>p. Returns (Some (30, Fulfilled (Some \<lparr>res_error = False, res_data = None\<rparr>)))),
      select_query = (\<lambda>i. Returns (Some (30, Fulfilled (Some \<lparr>res_error = False,
                        res_data = Some \<lparr>lead_user_id = Some i, lead_username = None,
                          lead_status = Some (ascii ''anger''), lead_frequency = None\<rparr>\<rparr>))))\<rparr>"

definition env_of :: "telegram \<Rightarrow> client option \<Rightarrow> env" where
  \<comment> \<open>an environment with the operator channel \<open>-100\<close> and no contact URL\<close>
  "env_of tg sb =
     \<lparr>telegram = tg, supabase = sb, ADMIN_CHAT_ID = Some (ascii ''-100''),
      MARIA_CONTACT_URL = None\<rparr>"

definition alice :: user where
  "alice =
     \<lparr>from_id = 42, from_username = Some (ascii ''alice''), from_first_name = None,
      from_last_name = None\<rparr>"

definition click :: "jsstring \<Rightarrow> ctx" where
  \<comment> \<open>alice presses a button under message 10 of her private chat\<close>
  "click m =
     \<lparr>ctx_from = Some alice, ctx_chat_id = Some 42,
      ctx_cb_message = Some \<lparr>message_id = 10, message_chat_id = Some 42\<rparr>,
      ctx_match1 = m\<rparr>"

definition typed :: ctx where
  \<comment> \<open>alice writes in her private chat: there is no message of an interaction\<close>
  "typed =
     \<lparr>ctx_from = Some alice, ctx_chat_id = Some 42, ctx_cb_message = None, ctx_match1 = []\<rparr>"

definition nowhere :: ctx where
  \<comment> \<open>an update without sender, chat or message\<close>
  "nowhere = \<lparr>ctx_from = None, ctx_chat_id = None, ctx_cb_message = None, ctx_match1 = []\<rparr>"

definition fresh :: bot where
  "fresh = \<lparr>cache = Map.empty, calls = [], unhandled = []\<rparr>"

definition warm :: bot where
  \<comment> \<open>alice has chosen anxiety and daily before\<close>
  "warm =
     \<lparr>cache = [42 \<mapsto> \<lparr>mem_status = Some (ascii ''anxiety''),
                         mem_frequency = Some (ascii ''daily'')\<rparr>],
      calls = [], unhandled = []\<rparr>"

definition settles :: "env \<Rightarrow> bool" where
  \<comment> \<open>no Telegram call throws synchronously or stays pending: each returns a promise that
      is fulfilled or rejected\<close>
  "settles ev = (\<forall>k. case telegram ev k of
                      Throws e \<Rightarrow> False
                    | Returns None \<Rightarrow> False
                    | Returns (Some tr) \<Rightarrow> True)"

section \<open>Evaluation and helper lemmas\<close>

lemma dec_nat_small: "n < 10 \<Longrightarrow> dec_nat n = [48 + n]"
  by (subst dec_nat.simps) simp

lemma dec_nat_large: "10 \<le> n \<Longrightarrow> dec_nat n = dec_nat (n div 10) @ [48 + n mod 10]"
  by (subst dec_nat.simps) simp

lemma withTimeout_settles: "\<exists>t r. withTimeout p ms l = Some (t, r) \<and> t \<le> ms"
  by (auto simp: withTimeout_def race_def split: option.splits)

lemma withTimeout_late:
  "p = None \<or> (\<exists>t r. p = Some (t, r) \<and> ms < t) \<Longrightarrow>
   withTimeout p ms l = Some (ms, Rejected (TimeoutError l))"
  by (auto simp: withTimeout_def race_def)

lemma upsertLead_fulfilled: "\<exists>t. upsertLead sb c pt = Some (t, Fulfilled ()) \<and> t \<le> 4000"
proof (cases sb)
  case None
  then show ?thesis by (simp add: upsertLead_def)
next
  case (Some cl)
  show ?thesis
  proof (cases "upsert_query cl (userMeta c, pt)")
    case (Throws e)
    with Some show ?thesis by (simp add: upsertLead_def)
  next
    case (Returns q)
    obtain t r where "withTimeout q 4000 (ascii ''supabase upsert timeout'') = Some (t, r)"
      and "t \<le> 4000"
      using withTimeout_settles by blast
    with Some Returns show ?thesis
      by (cases r) (simp_all add: upsertLead_def)
  qed
qed

lemma getLead_fulfilled: "\<exists>t v. getLead sb uid = Some (t, Fulfilled v) \<and> t \<le> 4000"
proof (cases sb)
  case None
  then show ?thesis by (simp add: getLead_def)
next
  case (Some cl)
  show ?thesis
  proof (cases "select_query cl uid")
    case (Throws e)
    with Some show ?thesis by (simp add: getLead_def)
  next
    case (Returns q)
    obtain t r where "withTimeout q 4000 (ascii ''supabase select timeout'') = Some (t, r)"
      and "t \<le> 4000"
      using withTimeout_settles by blast
    with Some Returns show ?thesis
      by (cases r) (auto simp: getLead_def split: option.splits)
  qed
qed

lemma getLead_timeout:
  assumes "select_query cl uid = Returns q"
    and "q = None \<or> (\<exists>t r. q = Some (t, r) \<and> 4000 < t)"
  shows "getLead (Some cl) uid = Some (4000, Fulfilled None)"
  using assms(1) withTimeout_late [OF assms(2), of "ascii ''supabase select timeout''"]
  by (simp add: getLead_def)

lemma getLead_no_data:
  assumes "select_query cl uid = Throws e \<or>
           (\<exists>t e'. select_query cl uid = Returns (Some (t, Rejected e'))) \<or>
           (\<exists>t. select_query cl uid = Returns (Some (t, Fulfilled None))) \<or>
           (\<exists>t res. select_query cl uid = Returns (Some (t, Fulfilled (Some res))) \<and>
                     (res_error res \<or> res_data res = None))"
  shows "\<exists>t. getLead (Some cl) uid = Some (t, Fulfilled None)"
  using assms
  by (elim disjE exE conjE) (simp_all add: getLead_def withTimeout_def race_def)

lemma try_fulfilled: "fulfilled ev k \<Longrightarrow> try_in_order ev (k # ks) = (Some True, [k])"
  by (simp add: fulfilled_def split: awaited.splits)

lemma try_pending: "pending ev k \<Longrightarrow> try_in_order ev (k # ks) = (None, [k])"
  by (simp add: pending_def split: awaited.splits)

lemma try_failed:
  "failed ev k \<Longrightarrow>
   try_in_order ev (k # ks) = (fst (try_in_order ev ks), k # snd (try_in_order ev ks))"
  by (simp add: failed_def split: awaited.splits)

lemma call_settles_cases: "fulfilled ev k \<or> failed ev k \<or> pending ev k"
  by (simp add: fulfilled_def failed_def pending_def split: awaited.splits)

lemma call_settles_excl:
  "fulfilled ev k \<Longrightarrow> \<not> failed ev k \<and> \<not> pending ev k"
  "failed ev k \<Longrightarrow> \<not> fulfilled ev k \<and> \<not> pending ev k"
  "pending ev k \<Longrightarrow> \<not> fulfilled ev k \<and> \<not> failed ev k"
  by (simp_all add: fulfilled_def failed_def pending_def split: awaited.splits)

lemma try_in_order_head:
  "snd (try_in_order ev (k # ks)) \<noteq> [] \<and> hd (snd (try_in_order ev (k # ks))) = k"
  by (simp split: awaited.splits)

lemma try_in_order_subseq: "subseq (snd (try_in_order ev ks)) ks"
  by (induction ks) (simp_all split: awaited.splits)

declare try_in_order.simps(2) [simp del]

lemma try_in_order_true:
  "fst (try_in_order ev ks) = Some True \<Longrightarrow>
   snd (try_in_order ev ks) \<noteq> [] \<and>
   fulfilled ev (last (snd (try_in_order ev ks))) \<and>
   (\<forall>k \<in> set (butlast (snd (try_in_order ev ks))). failed ev k)"
proof (induction ks)
  case Nil
  then show ?case by simp
next
  case (Cons k ks)
  from call_settles_cases [of ev k] show ?case
  proof (elim disjE)
    assume "fulfilled ev k"
    then show ?thesis by (simp add: try_fulfilled)
  next
    assume "pending ev k"
    with Cons.prems show ?thesis by (simp add: try_pending)
  next
    assume f: "failed ev k"
    with Cons.prems have "fst (try_in_order ev ks) = Some True"
      by (simp add: try_failed)
    with Cons.IH f show ?thesis
      by (simp add: try_failed)
  qed
qed

lemma try_in_order_false:
  "fst (try_in_order ev ks) = Some False \<Longrightarrow>
   snd (try_in_order ev ks) = ks \<and> (\<forall>k \<in> set ks. failed ev k)"
proof (induction ks)
  case Nil
  then show ?case by simp
next
  case (Cons k ks)
  from call_settles_cases [of ev k] show ?case
  proof (elim disjE)
    assume "fulfilled ev k"
    with Cons.prems show ?thesis by (simp add: try_fulfilled)
  next
    assume "pending ev k"
    with Cons.prems show ?thesis by (simp add: try_pending)
  next
    assume f: "failed ev k"
    with Cons.prems have "fst (try_in_order ev ks) = Some False"
      by (simp add: try_failed)
    with Cons.IH f show ?thesis
      by (simp add: try_failed)
  qed
qed

lemma try_in_order_returns:
  "ks \<noteq> [] \<Longrightarrow>
   snd (try_in_order ev ks) \<noteq> [] \<and>
   (fst (try_in_order ev ks) = None) = pending ev (last (snd (try_in_order ev ks)))"
proof (induction ks)
  case Nil
  then show ?case by simp
next
  case (Cons k ks)
  from call_settles_cases [of ev k] show ?case
  proof (elim disjE)
    assume "fulfilled ev k"
    with call_settles_excl(1) [of ev k] show ?thesis by (simp add: try_fulfilled)
  next
    assume "pending ev k"
    then show ?thesis by (simp add: try_pending)
  next
    assume f: "failed ev k"
    show ?thesis
    proof (cases ks)
      case Nil
      with f call_settles_excl(2) [of ev k] show ?thesis by (simp add: try_failed)
    next
      case (Cons k' ks')
      with Cons.IH f show ?thesis by (simp add: try_failed)
    qed
  qed
qed

lemma final_reply_refines:
  "final_reply ev msg extra s =
     (fst (try_in_order ev [Reply msg extra]),
      s\<lparr>calls := calls s @ snd (try_in_order ev [Reply msg extra])\<rparr>)"
  by (simp add: final_reply_def do_call_def try_in_order.simps split: awaited.splits)

lemma final_send_refines:
  "final_send ev cid msg extra s =
     (fst (try_in_order ev
        ((case cid of
            None \<Rightarrow> []
          | Some n \<Rightarrow> if n = 0 then [] else [SendMessage (ChatNum n) msg extra]) @
         [Reply msg extra])),
      s\<lparr>calls := calls s @ snd (try_in_order ev
        ((case cid of
            None \<Rightarrow> []
          | Some n \<Rightarrow> if n = 0 then [] else [SendMessage (ChatNum n) msg extra]) @
         [Reply msg extra]))\<rparr>)"
  by (simp add: final_send_def final_reply_refines do_call_def try_in_order.simps
        split: option.splits awaited.splits)

lemma sendFinal_refines:
  "sendFinalToUser ev c msg extra s =
     (fst (try_in_order ev (attempts c msg extra)),
      s\<lparr>calls := calls s @ snd (try_in_order ev (attempts c msg extra))\<rparr>)"
  by (simp add: sendFinalToUser_def final_send_refines do_call_def attempts_def has_message_def
        try_in_order.simps split: awaited.splits)

lemma sendFinal_new_calls:
  "new_calls s (snd (sendFinalToUser ev c msg extra s)) =
     snd (try_in_order ev (attempts c msg extra))"
  by (simp add: sendFinal_refines new_calls_def)

lemma sendFinal_fst:
  "fst (sendFinalToUser ev c msg extra s) = fst (try_in_order ev (attempts c msg extra))"
  by (simp add: sendFinal_refines)

lemma attempts_subseq:
  "case chatId c of
     None \<Rightarrow> subseq (attempts c msg extra) [EditMessageText msg extra, Reply msg extra]
   | Some n \<Rightarrow> subseq (attempts c msg extra)
       [EditMessageText msg extra, SendMessage (ChatNum n) msg extra, Reply msg extra]"
  by (simp add: attempts_def split: option.splits)

lemma sendFinal_order:
  "case chatId c of
     None \<Rightarrow> subseq (new_calls s (snd (sendFinalToUser ev c msg extra s)))
               [EditMessageText msg extra, Reply msg extra]
   | Some n \<Rightarrow> subseq (new_calls s (snd (sendFinalToUser ev c msg extra s)))
               [EditMessageText msg extra, SendMessage (ChatNum n) msg extra, Reply msg extra]"
proof -
  have m: "subseq (new_calls s (snd (sendFinalToUser ev c msg extra s))) (attempts c msg extra)"
    using try_in_order_subseq [of ev "attempts c msg extra"]
    by (simp add: sendFinal_new_calls)
  show ?thesis
  proof (cases "chatId c")
    case None
    with attempts_subseq [of c msg extra]
    have "subseq (attempts c msg extra) [EditMessageText msg extra, Reply msg extra]"
      by simp
    from subseq_order.trans [OF m this] None show ?thesis
      by simp
  next
    case (Some n)
    with attempts_subseq [of c msg extra]
    have "subseq (attempts c msg extra)
       [EditMessageText msg extra, SendMessage (ChatNum n) msg extra, Reply msg extra]"
      by simp
    from subseq_order.trans [OF m this] Some show ?thesis
      by simp
  qed
qed

lemma sendFinal_true:
  "fst (sendFinalToUser ev c msg extra s) = Some True \<Longrightarrow>
   new_calls s (snd (sendFinalToUser ev c msg extra s)) \<noteq> [] \<and>
   fulfilled ev (last (new_calls s (snd (sendFinalToUser ev c msg extra s)))) \<and>
   (\<forall>k \<in> set (butlast (new_calls s (snd (sendFinalToUser ev c msg extra s)))). failed ev k)"
  using try_in_order_true [of ev "attempts c msg extra"]
  by (simp add: sendFinal_new_calls sendFinal_fst)

lemma sendFinal_false:
  "fst (sendFinalToUser ev c msg extra s) = Some False \<Longrightarrow>
   Reply msg extra \<in> set (new_calls s (snd (sendFinalToUser ev c msg extra s))) \<and>
   (\<forall>k \<in> set (new_calls s (snd (sendFinalToUser ev c msg extra s))). failed ev k)"
  using try_in_order_false [of ev "attempts c msg extra"]
  by (simp add: sendFinal_new_calls sendFinal_fst) (simp add: attempts_def)

lemma sendFinal_edit_first:
  "truthy_num (map_option message_id (ctx_cb_message c)) \<Longrightarrow>
   new_calls s (snd (sendFinalToUser ev c msg extra s)) \<noteq> [] \<and>
   hd (new_calls s (snd (sendFinalToUser ev c msg extra s))) = EditMessageText msg extra"
  using try_in_order_head [of ev "EditMessageText msg extra"]
  by (simp add: sendFinal_new_calls attempts_def has_message_def)

lemma sendFinal_edit_ok:
  "has_message c \<Longrightarrow> fulfilled ev (EditMessageText msg extra) \<Longrightarrow>
   fst (sendFinalToUser ev c msg extra s) = Some True \<and>
   new_calls s (snd (sendFinalToUser ev c msg extra s)) = [EditMessageText msg extra]"
  by (simp add: sendFinal_new_calls sendFinal_fst attempts_def try_fulfilled
       )

lemma try_after_edit:
  "\<not> has_message c \<or> failed ev (EditMessageText msg extra) \<Longrightarrow>
   fst (try_in_order ev (attempts c msg extra)) =
     fst (try_in_order ev
       ((case chatId c of
           None \<Rightarrow> []
         | Some n \<Rightarrow> if n = 0 then [] else [SendMessage (ChatNum n) msg extra]) @
        [Reply msg extra])) \<and>
   snd (try_in_order ev (attempts c msg extra)) =
     (if has_message c then [EditMessageText msg extra] else []) @
     snd (try_in_order ev
       ((case chatId c of
           None \<Rightarrow> []
         | Some n \<Rightarrow> if n = 0 then [] else [SendMessage (ChatNum n) msg extra]) @
        [Reply msg extra]))"
  by (auto simp: attempts_def try_failed)

lemma sendFinal_send_tried:
  assumes "\<not> has_message c \<or> failed ev (EditMessageText msg extra)"
    and "chatId c = Some n" and "n \<noteq> 0"
  shows "SendMessage (ChatNum n) msg extra \<in>
           set (new_calls s (snd (sendFinalToUser ev c msg extra s)))"
proof -
  let ?made = "snd (try_in_order ev [SendMessage (ChatNum n) msg extra, Reply msg extra])"
  have "?made \<noteq> [] \<and> hd ?made = SendMessage (ChatNum n) msg extra"
    by (rule try_in_order_head)
  then have "SendMessage (ChatNum n) msg extra \<in> set ?made"
    using hd_in_set [of ?made] by simp
  with assms(2,3) try_after_edit [OF assms(1)] show ?thesis
    by (simp add: sendFinal_new_calls)
qed

lemma sendFinal_send_ok:
  "\<not> has_message c \<or> failed ev (EditMessageText msg extra) \<Longrightarrow>
   chatId c = Some n \<Longrightarrow> n \<noteq> 0 \<Longrightarrow> fulfilled ev (SendMessage (ChatNum n) msg extra) \<Longrightarrow>
   fst (sendFinalToUser ev c msg extra s) = Some True \<and>
   last (new_calls s (snd (sendFinalToUser ev c msg extra s))) =
     SendMessage (ChatNum n) msg extra \<and>
   Reply msg extra \<notin> set (new_calls s (snd (sendFinalToUser ev c msg extra s)))"
  by (simp add: sendFinal_new_calls sendFinal_fst try_after_edit try_fulfilled
       )

lemma try_reply_only:
  "fst (try_in_order ev [Reply msg extra]) =
     (if fulfilled ev (Reply msg extra) then Some True
      else if failed ev (Reply msg extra) then Some False else None) \<and>
   snd (try_in_order ev [Reply msg extra]) = [Reply msg extra]"
  by (simp add: fulfilled_def failed_def try_in_order.simps split: awaited.splits)

lemma sendFinal_reply_decides:
  assumes "\<not> has_message c \<or> failed ev (EditMessageText msg extra)"
    and "chatId c = None \<or> chatId c = Some 0 \<or>
         (\<exists>n. chatId c = Some n \<and> failed ev (SendMessage (ChatNum n) msg extra))"
  shows "last (new_calls s (snd (sendFinalToUser ev c msg extra s))) = Reply msg extra \<and>
   fst (sendFinalToUser ev c msg extra s) =
     (if fulfilled ev (Reply msg extra) then Some True
      else if failed ev (Reply msg extra) then Some False else None)"
  using assms(2)
proof (elim disjE exE conjE)
  assume "chatId c = None"
  then show ?thesis
    using try_after_edit [OF assms(1)] try_reply_only [of ev msg extra]
    by (simp add: sendFinal_new_calls sendFinal_fst)
next
  assume "chatId c = Some 0"
  then show ?thesis
    using try_after_edit [OF assms(1)] try_reply_only [of ev msg extra]
    by (simp add: sendFinal_new_calls sendFinal_fst)
next
  fix n
  assume "chatId c = Some n" "failed ev (SendMessage (ChatNum n) msg extra)"
  then show ?thesis
    using try_after_edit [OF assms(1)] try_reply_only [of ev msg extra]
      call_settles_excl(2) [of ev "Reply msg extra"]
    by (auto simp: sendFinal_new_calls sendFinal_fst try_failed)
qed

lemma sendFinal_last_resort:
  "failed ev (EditMessageText msg extra) \<Longrightarrow> (\<forall>m. failed ev (SendMessage m msg extra)) \<Longrightarrow>
   fulfilled ev (Reply msg extra) \<Longrightarrow>
   fst (sendFinalToUser ev c msg extra s) = Some True \<and>
   last (new_calls s (snd (sendFinalToUser ev c msg extra s))) = Reply msg extra"
proof -
  assume e: "failed ev (EditMessageText msg extra)"
    and m: "\<forall>m. failed ev (SendMessage m msg extra)"
    and r: "fulfilled ev (Reply msg extra)"
  have "chatId c = None \<or> chatId c = Some 0 \<or>
         (\<exists>n. chatId c = Some n \<and> failed ev (SendMessage (ChatNum n) msg extra))"
    using m by (cases "chatId c") auto
  from sendFinal_reply_decides [OF _ this, of s] e r show ?thesis
    by simp
qed

lemma sendFinal_returns:
  "new_calls s (snd (sendFinalToUser ev c msg extra s)) \<noteq> [] \<and>
   (fst (sendFinalToUser ev c msg extra s) = None) =
     pending ev (last (new_calls s (snd (sendFinalToUser ev c msg extra s))))"
proof -
  have "attempts c msg extra \<noteq> []"
    by (simp add: attempts_def)
  from try_in_order_returns [OF this, of ev] show ?thesis
    by (simp add: sendFinal_new_calls sendFinal_fst)
qed

lemma detached_upsertLead: "detached (upsertLead sb c pt) s = s"
  using upsertLead_fulfilled [of sb c pt] by (auto simp: detached_def)

lemma state_catch_cache: "cache (snd (state_catch ev s)) = cache s"
  by (simp add: state_catch_def do_call_def split: call.splits)

lemma state_body_cache:
  "cache (snd (state_body ev c s)) =
     (case telegram ev (AnswerCbQuery msg_ok) of
        Throws e \<Rightarrow> cache s
      | Returns p \<Rightarrow>
          (case ctx_from c of
             None \<Rightarrow> cache s
           | Some u \<Rightarrow> (cache s)(from_id u \<mapsto>
               (mem_or_empty (cache s) (from_id u))\<lparr>mem_status := Some (ctx_match1 c)\<rparr>)))"
  by (simp add: state_body_def do_call_def fireAndForget_def Let_def
        split: call.splits option.splits awaited.splits)

lemma on_state_cache: "cache (snd (on_state ev c s)) = cache (snd (state_body ev c s))"
  by (simp add: on_state_def state_catch_cache split: prod.splits outcome.splits)

lemma on_freq_cache:
  "cache (snd (on_freq ev c s)) =
     (case telegram ev (AnswerCbQuery msg_ok) of
        Throws e \<Rightarrow> cache s
      | Returns p \<Rightarrow>
          (case ctx_from c of
             None \<Rightarrow> cache s
           | Some u \<Rightarrow> (cache s)(from_id u \<mapsto>
               (mem_or_empty (cache s) (from_id u))\<lparr>mem_frequency := Some (ctx_match1 c)\<rparr>)))"
  by (simp add: on_freq_def do_call_def detached_upsertLead Let_def
        split: call.splits option.splits settled.splits)

lemma on_freq_calls:
  "telegram ev (AnswerCbQuery msg_ok) = Returns p \<Longrightarrow> ctx_from c = Some u \<Longrightarrow>
   calls (snd (on_freq ev c s)) =
     calls s @ [AnswerCbQuery msg_ok,
                Reply (if ctx_match1 c = ascii ''rare'' then COPY_offerRare else COPY_offerRegular)
                  (Some [[CallbackBtn BTN_book (ascii ''book'')]])]"
  by (simp add: on_freq_def do_call_def detached_upsertLead Let_def
        split: call.splits option.splits settled.splits)

lemma on_freq_calls_early:
  "(\<exists>e. telegram ev (AnswerCbQuery msg_ok) = Throws e) \<or> ctx_from c = None \<Longrightarrow>
   calls (snd (on_freq ev c s)) = calls s @ [AnswerCbQuery msg_ok]"
  by (auto simp: on_freq_def do_call_def split: call.splits)

lemma await_getLead: "await (Returns (getLead (supabase ev) uid)) = Value (store_record ev uid)"
  using getLead_fulfilled [of "supabase ev" uid]
  by (auto simp: await_def store_record_def)

lemma or_str_per_field: "or_str (Option.bind ld fld) cached = per_field ld fld cached"
  by (simp add: or_str_def truthy_str_def per_field_def split: option.splits)

lemma book_notify_calls:
  "ctx_from c = Some u \<Longrightarrow> hasAdmin ev \<Longrightarrow>
   calls (book_notify ev c s) =
     calls s @
     [SendMessage (ChatEnv (ADMIN_CHAT_ID ev))
        (summary_lines
           (shown_name (or_str (Option.bind (store_record ev (from_id u)) lead_username)
              (from_username u)))
           (or_int (Option.bind (store_record ev (from_id u)) lead_user_id) (from_id u))
           (statusHuman (per_field (store_record ev (from_id u)) lead_status
              (mem_status (mem_or_empty (cache s) (from_id u)))))
           (freqHuman (per_field (store_record ev (from_id u)) lead_frequency
              (mem_frequency (mem_or_empty (cache s) (from_id u))))))
        None]"
  by (simp add: book_notify_def await_getLead or_str_per_field do_call_def summary_lines_def
        shown_name_def Let_def)

lemma book_notify_calls_none:
  "ctx_from c = None \<or> \<not> hasAdmin ev \<Longrightarrow> calls (book_notify ev c s) = calls s"
  by (auto simp: book_notify_def await_getLead Let_def split: option.splits)

lemma buildAdminText_shape:
  "buildAdminText n uid sh fh =
     summary_lines (shown_name n) uid sh fh @
     (case n of None \<Rightarrow> [] | Some x \<Rightarrow> if x = [] then [] else profile_line x)"
  by (simp add: buildAdminText_def summary_lines_def shown_name_def profile_line_def Let_def
        split: option.splits)

lemma notifyAdmin_calls:
  "ctx_from c = Some u \<Longrightarrow> hasAdmin ev \<Longrightarrow>
   calls (snd (notifyAdminInBackground ev c s)) =
     calls s @
     [SendMessage (ChatEnv (ADMIN_CHAT_ID ev))
        (buildAdminText
           (or_str (or_str (Option.bind (store_record ev (from_id u)) lead_username)
              (from_username u)) None)
           (or_int (Option.bind (store_record ev (from_id u)) lead_user_id) (from_id u))
           (statusHuman (per_field (store_record ev (from_id u)) lead_status
              (mem_status (mem_or_empty (cache s) (from_id u)))))
           (freqHuman (per_field (store_record ev (from_id u)) lead_frequency
              (mem_frequency (mem_or_empty (cache s) (from_id u))))))
        None]"
  by (simp add: notifyAdminInBackground_def await_getLead or_str_per_field do_call_def Let_def
        split: awaited.splits)

lemma store_record_unconfigured: "supabase ev = None \<Longrightarrow> store_record ev uid = None"
  by (simp add: store_record_def getLead_def)

lemma labels_nonempty:
  "COPY_anxiety_label \<noteq> []" "COPY_anger_label \<noteq> []" "COPY_apathy_label \<noteq> []"
  "FREQUENCY_rare \<noteq> []" "FREQUENCY_weekly \<noteq> []" "FREQUENCY_daily \<noteq> []"
  by (simp_all add: COPY_anxiety_label_def COPY_anger_label_def COPY_apathy_label_def
        FREQUENCY_rare_def FREQUENCY_weekly_def FREQUENCY_daily_def)

lemma statusHuman_known:
  "statusHuman (Some (ascii ''anxiety'')) = COPY_anxiety_label"
  "statusHuman (Some (ascii ''anger'')) = COPY_anger_label"
  "statusHuman (Some (ascii ''apathy'')) = COPY_apathy_label"
  "statusHuman None = dash"
  by (simp_all add: statusHuman_def COPY_states_def labels_nonempty ascii_def)

lemma freqHuman_known:
  "freqHuman (Some (ascii ''rare'')) = FREQUENCY_rare"
  "freqHuman (Some (ascii ''weekly'')) = FREQUENCY_weekly"
  "freqHuman (Some (ascii ''daily'')) = FREQUENCY_daily"
  "freqHuman None = dash"
  by (simp_all add: freqHuman_def FREQUENCY_def labels_nonempty ascii_def)

lemma store_record_anger:
  "store_record (env_of tg (Some store_anger)) 42 =
     Some \<lparr>lead_user_id = Some 42, lead_username = None, lead_status = Some (ascii ''anger''),
           lead_frequency = None\<rparr>"
  by (simp add: store_record_def getLead_def store_anger_def withTimeout_def race_def env_of_def)

lemma click_alice:
  "ctx_from (click m) = Some alice" "ctx_match1 (click m) = m" "from_id alice = 42"
  "from_username alice = Some (ascii ''alice'')" "ctx_chat_id (click m) = Some 42"
  "ctx_cb_message (click m) = Some \<lparr>message_id = 10, message_chat_id = Some 42\<rparr>"
  by (simp_all add: click_def alice_def)

lemma env_of_fields:
  "telegram (env_of tg sb) = tg" "supabase (env_of tg sb) = sb"
  "ADMIN_CHAT_ID (env_of tg sb) = Some (ascii ''-100'')" "MARIA_CONTACT_URL (env_of tg sb) = None"
  "hasAdmin (env_of tg sb)"
  by (simp_all add: env_of_def hasAdmin_def truthy_str_def ascii_def)

lemma warm_alice:
  "mem_or_empty (cache warm) 42 =
     \<lparr>mem_status = Some (ascii ''anxiety''), mem_frequency = Some (ascii ''daily'')\<rparr>"
  "mem_or_empty (cache fresh) k = \<lparr>mem_status = None, mem_frequency = None\<rparr>"
  by (simp_all add: mem_or_empty_def warm_def fresh_def)

lemma on_state_caught:
  "fst (state_body ev c s) = Raised e \<Longrightarrow> fulfilled ev (Reply state_retry None) \<Longrightarrow>
   fst (on_state ev c s) = Completed \<and>
   last (calls (snd (on_state ev c s))) = Reply state_retry None"
  by (cases "state_body ev c s")
     (auto simp: on_state_def state_catch_def do_call_def fulfilled_def await_def adopt_def
        split: call.splits option.splits settled.splits)

lemma on_done_caught:
  "fst (done_body ev c s) = Inl e \<Longrightarrow> fulfilled ev (Reply done_retry None) \<Longrightarrow>
   fst (on_done ev c s) = Completed \<and>
   last (calls (snd (on_done ev c s))) = Reply done_retry None"
  by (cases "done_body ev c s")
     (auto simp: on_done_def done_catch_def do_call_def fulfilled_def await_def adopt_def
        split: call.splits option.splits settled.splits)

lemma on_freq_no_retry:
  "Reply t None \<notin> set (new_calls s (snd (on_freq ev c s)))"
proof (cases "(\<exists>e. telegram ev (AnswerCbQuery msg_ok) = Throws e) \<or> ctx_from c = None")
  case True
  from on_freq_calls_early [OF this, of s] show ?thesis
    by (simp add: new_calls_def)
next
  case False
  then obtain p u where "telegram ev (AnswerCbQuery msg_ok) = Returns p" "ctx_from c = Some u"
    by (cases "telegram ev (AnswerCbQuery msg_ok)") auto
  from on_freq_calls [OF this, of s] show ?thesis
    by (simp add: new_calls_def)
qed

lemma on_freq_settles:
  "settles ev \<Longrightarrow> ctx_from c = Some u \<Longrightarrow> fst (on_freq ev c s) = Completed"
proof -
  assume a: "settles ev" and f: "ctx_from c = Some u"
  have k: "\<exists>tr. telegram ev k = Returns (Some tr)" for k
    using a unfolding settles_def
    by (cases "telegram ev k") (auto dest!: spec [of _ k] split: option.splits)
  obtain tr where 1: "telegram ev (AnswerCbQuery msg_ok) = Returns (Some tr)"
    using k by blast
  obtain t r where 2: "telegram ev (Reply (if ctx_match1 c = ascii ''rare'' then COPY_offerRare
      else COPY_offerRegular) (Some [[CallbackBtn BTN_book (ascii ''book'')]])) =
      Returns (Some (t, r))"
    using k by (metis surj_pair)
  show ?thesis
    using 1 2 f
    by (cases r) (simp_all add: on_freq_def do_call_def detached_upsertLead Let_def)
qed

lemma final_reply_shape:
  "\<exists>xs. calls (snd (final_reply ev msg extra s)) = calls s @ xs \<and>
        set xs \<subseteq> {Reply msg extra} \<and>
        (settles ev \<longrightarrow> fst (final_reply ev msg extra s) \<noteq> None)"
proof -
  have "settles ev \<Longrightarrow> await (telegram ev (Reply msg extra)) \<noteq> Forever"
    unfolding settles_def
    by (cases "telegram ev (Reply msg extra)")
       (auto dest!: spec [of _ "Reply msg extra"] simp: await_def split: option.splits settled.splits)
  then show ?thesis
    by (auto simp: final_reply_def do_call_def split: awaited.splits)
qed

lemma final_send_shape:
  "\<exists>xs. calls (snd (final_send ev cid msg extra s)) = calls s @ xs \<and>
        set xs \<subseteq> {Reply msg extra} \<union> {SendMessage m msg extra |m. True} \<and>
        (settles ev \<longrightarrow> fst (final_send ev cid msg extra s) \<noteq> None)"
proof -
  have w: "settles ev \<Longrightarrow> await (telegram ev k) \<noteq> Forever" for k
    unfolding settles_def
    by (cases "telegram ev k")
       (auto dest!: spec [of _ k] simp: await_def split: option.splits settled.splits)
  show ?thesis
  proof (cases "cid = None \<or> cid = Some 0")
    case True
    then have "final_send ev cid msg extra s = final_reply ev msg extra s"
      by (auto simp: final_send_def)
    with final_reply_shape [of ev msg extra s] show ?thesis by auto
  next
    case False
    then obtain n where n: "cid = Some n" "n \<noteq> 0" by auto
    let ?s' = "s\<lparr>calls := calls s @ [SendMessage (ChatNum n) msg extra]\<rparr>"
    from final_reply_shape [of ev msg extra ?s']
    obtain xs where xs: "calls (snd (final_reply ev msg extra ?s')) = calls ?s' @ xs"
      "set xs \<subseteq> {Reply msg extra}"
      "settles ev \<longrightarrow> fst (final_reply ev msg extra ?s') \<noteq> None"
      by blast
    show ?thesis
    proof (cases "await (telegram ev (SendMessage (ChatNum n) msg extra))")
      case (Value v)
      with n show ?thesis
        by (auto simp: final_send_def do_call_def)
    next
      case (Raise e)
      with n xs show ?thesis
        by (auto simp: final_send_def do_call_def)
    next
      case Forever
      with n w [of "SendMessage (ChatNum n) msg extra"] show ?thesis
        by (auto simp: final_send_def do_call_def)
    qed
  qed
qed

lemma sendFinal_shape:
  "\<exists>xs. calls (snd (sendFinalToUser ev c msg extra s)) = calls s @ xs \<and>
        set xs \<subseteq> {Reply msg extra, EditMessageText msg extra} \<union>
                 {SendMessage m msg extra |m. True} \<and>
        (settles ev \<longrightarrow> fst (sendFinalToUser ev c msg extra s) \<noteq> None)"
proof -
  have w: "settles ev \<Longrightarrow> await (telegram ev k) \<noteq> Forever" for k
    unfolding settles_def
    by (cases "telegram ev k")
       (auto dest!: spec [of _ k] simp: await_def split: option.splits settled.splits)
  show ?thesis
  proof (cases "truthy_num (map_option message_id (ctx_cb_message c))")
    case False
    with final_send_shape [of ev "chatId c" msg extra s] show ?thesis
      by (auto simp: sendFinalToUser_def)
  next
    case True
    let ?s' = "s\<lparr>calls := calls s @ [EditMessageText msg extra]\<rparr>"
    from final_send_shape [of ev "chatId c" msg extra ?s']
    obtain xs where xs: "calls (snd (final_send ev (chatId c) msg extra ?s')) = calls ?s' @ xs"
      "set xs \<subseteq> {Reply msg extra} \<union> {SendMessage m msg extra |m. True}"
      "settles ev \<longrightarrow> fst (final_send ev (chatId c) msg extra ?s') \<noteq> None"
      by blast
    show ?thesis
    proof (cases "await (telegram ev (EditMessageText msg extra))")
      case (Value v)
      with True show ?thesis
        by (auto simp: sendFinalToUser_def do_call_def)
    next
      case (Raise e)
      with True xs show ?thesis
        by (auto simp: sendFinalToUser_def do_call_def)
    next
      case Forever
      with True w [of "EditMessageText msg extra"] show ?thesis
        by (auto simp: sendFinalToUser_def do_call_def)
    qed
  qed
qed

lemma book_notify_shape:
  "\<exists>ys. calls (book_notify ev c s) = calls s @ ys \<and>
        set ys \<subseteq> {SendMessage m t x |m t x. True}"
proof (cases "ctx_from c = None \<or> \<not> hasAdmin ev")
  case True
  from book_notify_calls_none [OF this, of s] show ?thesis by simp
next
  case False
  then obtain u where "ctx_from c = Some u" "hasAdmin ev" by auto
  from book_notify_calls [OF this, of s] show ?thesis by auto
qed

lemma retry_is_not_final: "finalText \<noteq> state_retry" "finalText \<noteq> done_retry"
  by (simp_all add: finalText_def state_retry_def done_retry_def)

lemma on_book_shape:
  "Reply state_retry None \<notin> set (new_calls s (snd (on_book ev c s))) \<and>
   Reply done_retry None \<notin> set (new_calls s (snd (on_book ev c s))) \<and>
   (settles ev \<longrightarrow> fst (on_book ev c s) = Completed)"
proof (cases "telegram ev (AnswerCbQuery msg_accepted)")
  case (Throws e)
  then have "on_book ev c s = (Raised e, s\<lparr>calls := calls s @ [AnswerCbQuery msg_accepted]\<rparr>)"
    by (simp add: on_book_def do_call_def)
  moreover have "\<not> settles ev"
    using Throws unfolding settles_def
    by (auto intro!: exI [of _ "AnswerCbQuery msg_accepted"])
  ultimately show ?thesis by (simp add: new_calls_def)
next
  case (Returns p)
  let ?s1 = "s\<lparr>calls := calls s @ [AnswerCbQuery msg_accepted]\<rparr>"
  let ?extra = "case MARIA_CONTACT_URL ev of
                  None \<Rightarrow> None
                | Some url \<Rightarrow> if url = [] then None else Some [[UrlBtn write_maria url]]"
  let ?r = "sendFinalToUser ev c finalText ?extra ?s1"
  from sendFinal_shape [of ev c finalText ?extra ?s1]
  obtain xs where xs: "calls (snd ?r) = calls ?s1 @ xs"
    "set xs \<subseteq> {Reply finalText ?extra, EditMessageText finalText ?extra} \<union>
              {SendMessage m finalText ?extra |m. True}"
    "settles ev \<longrightarrow> fst ?r \<noteq> None"
    by blast
  from book_notify_shape [of ev c "snd ?r"]
  obtain ys where ys: "calls (book_notify ev c (snd ?r)) = calls (snd ?r) @ ys"
    "set ys \<subseteq> {SendMessage m t x |m t x. True}"
    by blast
  have o: "on_book ev c s =
      (case fst ?r of None \<Rightarrow> (Suspended, snd ?r)
       | Some b \<Rightarrow> (Completed, book_notify ev c (snd ?r)))"
    using Returns
    by (simp add: on_book_def do_call_def detached_upsertLead Let_def case_prod_beta)
  have n: "Reply state_retry None \<notin> set xs" "Reply done_retry None \<notin> set xs"
    "Reply state_retry None \<notin> set ys" "Reply done_retry None \<notin> set ys"
    using xs(2) ys(2) retry_is_not_final by auto
  show ?thesis
  proof (cases "fst ?r")
    case None
    with o xs n show ?thesis by (simp add: new_calls_def)
  next
    case (Some b)
    with o xs ys n show ?thesis by (simp add: new_calls_def)
  qed
qed

text \<open>
  The done handler returns the promise of its reply without awaiting it: when Telegram
  rejects that reply, the rejection is the handler's and no retry text is sent.
\<close>

lemma done_rejection_escapes:
  "fst (on_done (env_of tg_reply_rejected None) (click []) fresh) = Raised TransportError \<and>
   calls (snd (on_done (env_of tg_reply_rejected None) (click []) fresh)) =
     [AnswerCbQuery msg_ok, Reply COPY_afterTechnique (Some menuFrequencies)]"
  by (simp add: on_done_def done_body_def do_call_def fireAndForget_def adopt_def env_of_fields
        tg_reply_rejected_def ok_def rejected_def fresh_def)

section \<open>The claims\<close>

text \<open>
  C1, as the code has it: the state handler, and the done handler for an error thrown
  inside its \<^verbatim>\<open>try\<close> block, catch an error of the body and send the retry text with
  \<^verbatim>\<open>/start\<close>; when that reply is delivered the handler completes and the error does not
  leave it. The frequency and the booking handler have no such \<^verbatim>\<open>catch\<close>: they never
  send a retry text, and when every Telegram call settles (fulfilled or rejected) they
  complete, a rejected offer reply and failed deliveries being logged only.
\<close>

theorem handler_error_paths:
  "(fst (state_body ev c s) = Raised e \<and> fulfilled ev (Reply state_retry None) \<longrightarrow>
      fst (on_state ev c s) = Completed \<and>
      last (calls (snd (on_state ev c s))) = Reply state_retry None) \<and>
   (fst (done_body ev c s) = Inl e \<and> fulfilled ev (Reply done_retry None) \<longrightarrow>
      fst (on_done ev c s) = Completed \<and>
      last (calls (snd (on_done ev c s))) = Reply done_retry None) \<and>
   Reply state_retry None \<notin> set (new_calls s (snd (on_freq ev c s))) \<and>
   Reply done_retry None \<notin> set (new_calls s (snd (on_freq ev c s))) \<and>
   Reply state_retry None \<notin> set (new_calls s (snd (on_book ev c s))) \<and>
   Reply done_retry None \<notin> set (new_calls s (snd (on_book ev c s))) \<and>
   (settles ev \<and> ctx_from c = Some u \<longrightarrow>
      fst (on_freq ev c s) = Completed \<and> fst (on_book ev c s) = Completed)"
  using on_state_caught [of ev c s e] on_done_caught [of ev c s e]
    on_freq_no_retry [of state_retry s ev c] on_freq_no_retry [of done_retry s ev c]
    on_book_shape [of s ev c] on_freq_settles [of ev c u s]
  by blast

theorem handler_error_paths_witness:
  "fst (state_body (env_of tg_only_retry None) (click (ascii ''anger'')) fresh) =
     Raised TransportError \<and>
   fulfilled (env_of tg_only_retry None) (Reply state_retry None) \<and>
   fst (on_state (env_of tg_only_retry None) (click (ascii ''anger'')) fresh) = Completed \<and>
   last (calls (snd (on_state (env_of tg_only_retry None) (click (ascii ''anger'')) fresh))) =
     Reply state_retry None \<and>
   fst (done_body (env_of tg_ack_throws None) (click []) fresh) = Inl TransportError \<and>
   fulfilled (env_of tg_ack_throws None) (Reply done_retry None) \<and>
   fst (on_done (env_of tg_ack_throws None) (click []) fresh) = Completed \<and>
   last (calls (snd (on_done (env_of tg_ack_throws None) (click []) fresh))) =
     Reply done_retry None \<and>
   settles (env_of tg_reply_rejected None) \<and>
   ctx_from (click (ascii ''daily'')) = Some alice \<and>
   fst (on_freq (env_of tg_reply_rejected None) (click (ascii ''daily'')) fresh) = Completed \<and>
   fst (on_book (env_of tg_reply_rejected None) (click (ascii ''daily'')) fresh) = Completed"
proof -
  have b: "COPY_states (ascii ''anger'') =
      Some \<lparr>b_label = COPY_anger_label, b_explain = COPY_anger_explain,
            b_technique = COPY_anger_technique\<rparr>"
    by (simp add: COPY_states_def ascii_def)
  have x: "COPY_anger_explain \<noteq> state_retry" "COPY_anger_explain \<noteq> done_retry"
    by (simp_all add: COPY_anger_explain_def state_retry_def done_retry_def)
  have 1: "fst (state_body (env_of tg_only_retry None) (click (ascii ''anger'')) fresh) =
     Raised TransportError"
    by (simp add: state_body_def do_call_def fireAndForget_def env_of_fields tg_only_retry_def
          click_alice b x await_def ok_def rejected_def)
  have 2: "fulfilled (env_of tg_only_retry None) (Reply state_retry None)"
    by (simp add: fulfilled_def env_of_fields tg_only_retry_def await_def ok_def)
  have 3: "fst (done_body (env_of tg_ack_throws None) (click []) fresh) = Inl TransportError"
    by (simp add: done_body_def do_call_def env_of_fields tg_ack_throws_def)
  have 4: "fulfilled (env_of tg_ack_throws None) (Reply done_retry None)"
    by (simp add: fulfilled_def env_of_fields tg_ack_throws_def await_def ok_def)
  have 5: "settles (env_of tg_reply_rejected None)"
    by (simp add: settles_def env_of_fields tg_reply_rejected_def ok_def rejected_def
          split: tg_call.splits)
  note th = handler_error_paths
  from th [of "env_of tg_only_retry None" "click (ascii ''anger'')" fresh TransportError] 1 2
  have 6: "fst (on_state (env_of tg_only_retry None) (click (ascii ''anger'')) fresh) =
      Completed \<and>
    last (calls (snd (on_state (env_of tg_only_retry None) (click (ascii ''anger'')) fresh))) =
      Reply state_retry None"
    by blast
  from th [of "env_of tg_ack_throws None" "click []" fresh TransportError] 3 4
  have 7: "fst (on_done (env_of tg_ack_throws None) (click []) fresh) = Completed \<and>
    last (calls (snd (on_done (env_of tg_ack_throws None) (click []) fresh))) =
      Reply done_retry None"
    by blast
  from th [of "env_of tg_reply_rejected None" "click (ascii ''daily'')" fresh _ alice] 5
    click_alice(1) [of "ascii ''daily''"]
  have 8: "fst (on_freq (env_of tg_reply_rejected None) (click (ascii ''daily'')) fresh) =
      Completed \<and>
    fst (on_book (env_of tg_reply_rejected None) (click (ascii ''daily'')) fresh) = Completed"
    by blast
  from 1 2 3 4 5 6 7 8 click_alice(1) [of "ascii ''daily''"] show ?thesis
    by simp
qed

text \<open>
  C1 as the spec states it fails on the frequency and on the booking handler. When the
  offer reply throws, the error leaves the frequency handler and no retry text is sent;
  when the offer reply is rejected, the handler completes and no retry text is sent
  either; when every delivery of the final confirmation is rejected, the booking handler
  completes after its three attempts and the operator notification, without a retry text.
\<close>

theorem handler_retry_counterexample:
  "on_freq (env_of tg_reply_throws None) (click (ascii ''daily'')) fresh =
     (Raised TransportError,
      \<lparr>cache = [42 \<mapsto> \<lparr>mem_status = None, mem_frequency = Some (ascii ''daily'')\<rparr>],
       calls = [AnswerCbQuery msg_ok,
                Reply COPY_offerRegular (Some [[CallbackBtn BTN_book (ascii ''book'')]])],
       unhandled = []\<rparr>) \<and>
   on_freq (env_of tg_reply_rejected None) (click (ascii ''daily'')) fresh =
     (Completed,
      \<lparr>cache = [42 \<mapsto> \<lparr>mem_status = None, mem_frequency = Some (ascii ''daily'')\<rparr>],
       calls = [AnswerCbQuery msg_ok,
                Reply COPY_offerRegular (Some [[CallbackBtn BTN_book (ascii ''book'')]])],
       unhandled = []\<rparr>) \<and>
   fst (on_book (env_of tg_all_rejected None) (click []) fresh) = Completed \<and>
   calls (snd (on_book (env_of tg_all_rejected None) (click []) fresh)) =
     [AnswerCbQuery msg_accepted, EditMessageText finalText None,
      SendMessage (ChatNum 42) finalText None, Reply finalText None,
      SendMessage (ChatEnv (Some (ascii ''-100'')))
        (summary_lines (64 # ascii ''alice'') 42 dash dash) None]"
proof -
  have d: "ascii ''daily'' \<noteq> ascii ''rare''"
    by (simp add: ascii_def)
  have 1: "on_freq (env_of tg_reply_throws None) (click (ascii ''daily'')) fresh =
     (Raised TransportError,
      \<lparr>cache = [42 \<mapsto> \<lparr>mem_status = None, mem_frequency = Some (ascii ''daily'')\<rparr>],
       calls = [AnswerCbQuery msg_ok,
                Reply COPY_offerRegular (Some [[CallbackBtn BTN_book (ascii ''book'')]])],
       unhandled = []\<rparr>)"
    by (simp add: on_freq_def do_call_def detached_upsertLead env_of_fields tg_reply_throws_def
          click_alice d ok_def mem_or_empty_def fresh_def)
  have 2: "on_freq (env_of tg_reply_rejected None) (click (ascii ''daily'')) fresh =
     (Completed,
      \<lparr>cache = [42 \<mapsto> \<lparr>mem_status = None, mem_frequency = Some (ascii ''daily'')\<rparr>],
       calls = [AnswerCbQuery msg_ok,
                Reply COPY_offerRegular (Some [[CallbackBtn BTN_book (ascii ''book'')]])],
       unhandled = []\<rparr>)"
    by (simp add: on_freq_def do_call_def detached_upsertLead env_of_fields
          tg_reply_rejected_def click_alice d ok_def rejected_def mem_or_empty_def fresh_def)
  have s: "sendFinalToUser (env_of tg_all_rejected None) (click []) finalText None
             (fresh\<lparr>calls := [AnswerCbQuery msg_accepted]\<rparr>) =
           (Some False, fresh\<lparr>calls := [AnswerCbQuery msg_accepted,
              EditMessageText finalText None, SendMessage (ChatNum 42) finalText None,
              Reply finalText None]\<rparr>)"
    by (simp add: sendFinalToUser_def final_send_def final_reply_def do_call_def chatId_def
          nullish_def click_alice truthy_num_def env_of_fields tg_all_rejected_def await_def
          rejected_def fresh_def)
  have n: "shown_name (Some (ascii ''alice'')) = 64 # ascii ''alice''"
    by (simp add: shown_name_def ascii_def)
  have b: "calls (book_notify (env_of tg_all_rejected None) (click [])
             (fresh\<lparr>calls := [AnswerCbQuery msg_accepted, EditMessageText finalText None,
                SendMessage (ChatNum 42) finalText None, Reply finalText None]\<rparr>)) =
           [AnswerCbQuery msg_accepted, EditMessageText finalText None,
            SendMessage (ChatNum 42) finalText None, Reply finalText None,
            SendMessage (ChatEnv (Some (ascii ''-100'')))
              (summary_lines (64 # ascii ''alice'') 42 dash dash) None]"
    using book_notify_calls [of "click []" alice "env_of tg_all_rejected None"
        "fresh\<lparr>calls := [AnswerCbQuery msg_accepted, EditMessageText finalText None,
                SendMessage (ChatNum 42) finalText None, Reply finalText None]\<rparr>"]
    by (simp add: click_alice env_of_fields store_record_unconfigured per_field_def or_str_def
          truthy_str_def or_int_def n statusHuman_known freqHuman_known warm_alice)
  have o: "on_book (env_of tg_all_rejected None) (click []) fresh =
      (Completed, book_notify (env_of tg_all_rejected None) (click [])
         (fresh\<lparr>calls := [AnswerCbQuery msg_accepted, EditMessageText finalText None,
                SendMessage (ChatNum 42) finalText None, Reply finalText None]\<rparr>))"
    using s
    by (simp add: on_book_def do_call_def env_of_fields tg_all_rejected_def rejected_def
          detached_upsertLead fresh_def)
  from 1 2 o b show ?thesis by simp
qed

text \<open>
  C2: \<open>sendFinalToUser\<close> is the spec's ordered strategy list: it makes exactly the calls
  and gives exactly the result of trying, in this order and up to the first success, to
  edit the message of the triggering interaction (when there is one), to send a new
  message to the resolved chat identifier, and to reply on the context. So: when the
  edit succeeds the result is \<^verbatim>\<open>true\<close> and nothing else is called; when the edit is not
  possible or fails, the direct send is attempted, and when it succeeds the result is
  \<^verbatim>\<open>true\<close> and no reply is made; when edit and send are not possible or fail, the reply
  is the last call and decides the result, \<^verbatim>\<open>true\<close> if it succeeds and \<^verbatim>\<open>false\<close> if it
  fails. The function returns unless the last call it made never settles. A result
  \<^verbatim>\<open>true\<close> means that the last call made succeeded after all earlier ones failed, a
  result \<^verbatim>\<open>false\<close> that the reply was attempted and every call made has failed.
\<close>

theorem sendFinalToUser_fallback_order:
  "sendFinalToUser ev c msg extra s =
     (fst (try_in_order ev (attempts c msg extra)),
      s\<lparr>calls := calls s @ snd (try_in_order ev (attempts c msg extra))\<rparr>) \<and>
   (case chatId c of
      None \<Rightarrow> subseq (new_calls s (snd (sendFinalToUser ev c msg extra s)))
                [EditMessageText msg extra, Reply msg extra]
    | Some n \<Rightarrow> subseq (new_calls s (snd (sendFinalToUser ev c msg extra s)))
                [EditMessageText msg extra, SendMessage (ChatNum n) msg extra,
                 Reply msg extra]) \<and>
   (truthy_num (map_option message_id (ctx_cb_message c)) \<longrightarrow>
      new_calls s (snd (sendFinalToUser ev c msg extra s)) \<noteq> [] \<and>
      hd (new_calls s (snd (sendFinalToUser ev c msg extra s))) = EditMessageText msg extra) \<and>
   (fst (sendFinalToUser ev c msg extra s) = Some True \<longrightarrow>
      new_calls s (snd (sendFinalToUser ev c msg extra s)) \<noteq> [] \<and>
      fulfilled ev (last (new_calls s (snd (sendFinalToUser ev c msg extra s)))) \<and>
      (\<forall>k \<in> set (butlast (new_calls s (snd (sendFinalToUser ev c msg extra s)))).
         failed ev k)) \<and>
   (fst (sendFinalToUser ev c msg extra s) = Some False \<longrightarrow>
      Reply msg extra \<in> set (new_calls s (snd (sendFinalToUser ev c msg extra s))) \<and>
      (\<forall>k \<in> set (new_calls s (snd (sendFinalToUser ev c msg extra s))). failed ev k)) \<and>
   (failed ev (EditMessageText msg extra) \<and> (\<forall>m. failed ev (SendMessage m msg extra)) \<and>
    fulfilled ev (Reply msg extra) \<longrightarrow>
      fst (sendFinalToUser ev c msg extra s) = Some True \<and>
      last (new_calls s (snd (sendFinalToUser ev c msg extra s))) = Reply msg extra) \<and>
   (has_message c \<and> fulfilled ev (EditMessageText msg extra) \<longrightarrow>
      fst (sendFinalToUser ev c msg extra s) = Some True \<and>
      new_calls s (snd (sendFinalToUser ev c msg extra s)) = [EditMessageText msg extra]) \<and>
   ((\<not> has_message c \<or> failed ev (EditMessageText msg extra)) \<and>
    chatId c = Some n \<and> n \<noteq> 0 \<longrightarrow>
      SendMessage (ChatNum n) msg extra \<in>
        set (new_calls s (snd (sendFinalToUser ev c msg extra s)))) \<and>
   ((\<not> has_message c \<or> failed ev (EditMessageText msg extra)) \<and>
    chatId c = Some n \<and> n \<noteq> 0 \<and> fulfilled ev (SendMessage (ChatNum n) msg extra) \<longrightarrow>
      fst (sendFinalToUser ev c msg extra s) = Some True \<and>
      last (new_calls s (snd (sendFinalToUser ev c msg extra s))) =
        SendMessage (ChatNum n) msg extra \<and>
      Reply msg extra \<notin> set (new_calls s (snd (sendFinalToUser ev c msg extra s)))) \<and>
   ((\<not> has_message c \<or> failed ev (EditMessageText msg extra)) \<and>
    (chatId c = None \<or> chatId c = Some 0 \<or>
       (\<exists>j. chatId c = Some j \<and> failed ev (SendMessage (ChatNum j) msg extra))) \<longrightarrow>
      last (new_calls s (snd (sendFinalToUser ev c msg extra s))) = Reply msg extra \<and>
      fst (sendFinalToUser ev c msg extra s) =
        (if fulfilled ev (Reply msg extra) then Some True
         else if failed ev (Reply msg extra) then Some False else None)) \<and>
   new_calls s (snd (sendFinalToUser ev c msg extra s)) \<noteq> [] \<and>
   (fst (sendFinalToUser ev c msg extra s) = None) =
     pending ev (last (new_calls s (snd (sendFinalToUser ev c msg extra s))))"
proof -
  note a = sendFinal_refines [where ev = ev and c = c and msg = msg and extra = extra and s = s]
  note b = sendFinal_order [where ev = ev and c = c and msg = msg and extra = extra and s = s]
  note r = sendFinal_returns [where ev = ev and c = c and msg = msg and extra = extra and s = s]
  note r1 = conjunct1 [OF r] and r2 = conjunct2 [OF r]
  have 1: "truthy_num (map_option message_id (ctx_cb_message c)) \<longrightarrow>
      new_calls s (snd (sendFinalToUser ev c msg extra s)) \<noteq> [] \<and>
      hd (new_calls s (snd (sendFinalToUser ev c msg extra s))) = EditMessageText msg extra"
    using sendFinal_edit_first [where ev = ev and c = c and msg = msg and extra = extra and s = s]
    by blast
  have 2: "fst (sendFinalToUser ev c msg extra s) = Some True \<longrightarrow>
      new_calls s (snd (sendFinalToUser ev c msg extra s)) \<noteq> [] \<and>
      fulfilled ev (last (new_calls s (snd (sendFinalToUser ev c msg extra s)))) \<and>
      (\<forall>k \<in> set (butlast (new_calls s (snd (sendFinalToUser ev c msg extra s)))).
         failed ev k)"
    using sendFinal_true [where ev = ev and c = c and msg = msg and extra = extra and s = s]
    by blast
  have 3: "fst (sendFinalToUser ev c msg extra s) = Some False \<longrightarrow>
      Reply msg extra \<in> set (new_calls s (snd (sendFinalToUser ev c msg extra s))) \<and>
      (\<forall>k \<in> set (new_calls s (snd (sendFinalToUser ev c msg extra s))). failed ev k)"
    using sendFinal_false [where ev = ev and c = c and msg = msg and extra = extra and s = s]
    by blast
  have 4: "failed ev (EditMessageText msg extra) \<and> (\<forall>m. failed ev (SendMessage m msg extra)) \<and>
    fulfilled ev (Reply msg extra) \<longrightarrow>
      fst (sendFinalToUser ev c msg extra s) = Some True \<and>
      last (new_calls s (snd (sendFinalToUser ev c msg extra s))) = Reply msg extra"
    using sendFinal_last_resort [where ev = ev and c = c and msg = msg and extra = extra and s = s]
    by blast
  have 5: "has_message c \<and> fulfilled ev (EditMessageText msg extra) \<longrightarrow>
      fst (sendFinalToUser ev c msg extra s) = Some True \<and>
      new_calls s (snd (sendFinalToUser ev c msg extra s)) = [EditMessageText msg extra]"
    using sendFinal_edit_ok [where ev = ev and c = c and msg = msg and extra = extra and s = s]
    by blast
  have 6: "(\<not> has_message c \<or> failed ev (EditMessageText msg extra)) \<and>
    chatId c = Some n \<and> n \<noteq> 0 \<longrightarrow>
      SendMessage (ChatNum n) msg extra \<in>
        set (new_calls s (snd (sendFinalToUser ev c msg extra s)))"
    using sendFinal_send_tried [where ev = ev and c = c and msg = msg and extra = extra and s = s and n = n]
    by blast
  have 7: "(\<not> has_message c \<or> failed ev (EditMessageText msg extra)) \<and>
    chatId c = Some n \<and> n \<noteq> 0 \<and> fulfilled ev (SendMessage (ChatNum n) msg extra) \<longrightarrow>
      fst (sendFinalToUser ev c msg extra s) = Some True \<and>
      last (new_calls s (snd (sendFinalToUser ev c msg extra s))) =
        SendMessage (ChatNum n) msg extra \<and>
      Reply msg extra \<notin> set (new_calls s (snd (sendFinalToUser ev c msg extra s)))"
    using sendFinal_send_ok [where ev = ev and c = c and msg = msg and extra = extra and s = s and n = n]
    by blast
  have 8: "(\<not> has_message c \<or> failed ev (EditMessageText msg extra)) \<and>
    (chatId c = None \<or> chatId c = Some 0 \<or>
       (\<exists>j. chatId c = Some j \<and> failed ev (SendMessage (ChatNum j) msg extra))) \<longrightarrow>
      last (new_calls s (snd (sendFinalToUser ev c msg extra s))) = Reply msg extra \<and>
      fst (sendFinalToUser ev c msg extra s) =
        (if fulfilled ev (Reply msg extra) then Some True
         else if failed ev (Reply msg extra) then Some False else None)"
    using sendFinal_reply_decides [where ev = ev and c = c and msg = msg and extra = extra and s = s]
    by blast
  from a b 1 2 3 4 5 6 7 8 r1 r2 show ?thesis
    by - (intro conjI; assumption)
qed

theorem sendFinalToUser_fallback_order_witness:
  "has_message (click []) \<and> chatId (click []) = Some 42 \<and>
   \<not> has_message typed \<and> chatId typed = Some 42 \<and>
   \<not> has_message nowhere \<and> chatId nowhere = None \<and>
   fulfilled (env_of tg_all_ok None) (EditMessageText finalText None) \<and>
   fst (sendFinalToUser (env_of tg_all_ok None) (click []) finalText None fresh) = Some True \<and>
   new_calls fresh (snd (sendFinalToUser (env_of tg_all_ok None) (click []) finalText None
     fresh)) = [EditMessageText finalText None] \<and>
   failed (env_of tg_edit_rejected None) (EditMessageText finalText None) \<and>
   fulfilled (env_of tg_edit_rejected None) (SendMessage (ChatNum 42) finalText None) \<and>
   fst (sendFinalToUser (env_of tg_edit_rejected None) (click []) finalText None fresh) =
     Some True \<and>
   last (new_calls fresh (snd (sendFinalToUser (env_of tg_edit_rejected None) (click [])
     finalText None fresh))) = SendMessage (ChatNum 42) finalText None \<and>
   Reply finalText None \<notin> set (new_calls fresh (snd (sendFinalToUser
     (env_of tg_edit_rejected None) (click []) finalText None fresh))) \<and>
   failed (env_of tg_only_reply None) (EditMessageText finalText None) \<and>
   failed (env_of tg_only_reply None) (SendMessage (ChatNum 42) finalText None) \<and>
   fulfilled (env_of tg_only_reply None) (Reply finalText None) \<and>
   fst (sendFinalToUser (env_of tg_only_reply None) (click []) finalText None fresh) =
     Some True \<and>
   last (new_calls fresh (snd (sendFinalToUser (env_of tg_only_reply None) (click [])
     finalText None fresh))) = Reply finalText None \<and>
   SendMessage (ChatNum 42) finalText None \<in> set (new_calls fresh (snd (sendFinalToUser
     (env_of tg_only_reply None) (click []) finalText None fresh))) \<and>
   failed (env_of tg_all_rejected None) (Reply finalText None) \<and>
   fst (sendFinalToUser (env_of tg_all_rejected None) (click []) finalText None fresh) =
     Some False \<and>
   Reply finalText None \<in> set (new_calls fresh (snd (sendFinalToUser
     (env_of tg_all_rejected None) (click []) finalText None fresh))) \<and>
   pending (env_of tg_send_pending None) (SendMessage (ChatNum 42) finalText None) \<and>
   new_calls fresh (snd (sendFinalToUser (env_of tg_send_pending None) (click []) finalText
     None fresh)) =
     [EditMessageText finalText None, SendMessage (ChatNum 42) finalText None] \<and>
   fst (sendFinalToUser (env_of tg_send_pending None) (click []) finalText None fresh) =
     None \<and>
   fst (sendFinalToUser (env_of tg_all_ok None) typed finalText None fresh) = Some True \<and>
   last (new_calls fresh (snd (sendFinalToUser (env_of tg_all_ok None) typed finalText None
     fresh))) = SendMessage (ChatNum 42) finalText None \<and>
   fst (sendFinalToUser (env_of tg_all_ok None) nowhere finalText None fresh) = Some True \<and>
   last (new_calls fresh (snd (sendFinalToUser (env_of tg_all_ok None) nowhere finalText None
     fresh))) = Reply finalText None"
proof -
  note th = sendFinalToUser_fallback_order
  have c: "has_message (click [])" "chatId (click []) = Some 42"
    "\<not> has_message typed" "chatId typed = Some 42"
    "\<not> has_message nowhere" "chatId nowhere = None"
    by (simp_all add: has_message_def truthy_num_def chatId_def nullish_def click_def typed_def
          nowhere_def alice_def)
  have t: "fulfilled (env_of tg_all_ok None) k"
    "failed (env_of tg_edit_rejected None) (EditMessageText m x)"
    "fulfilled (env_of tg_edit_rejected None) (SendMessage j m x)"
    "failed (env_of tg_only_reply None) (EditMessageText m x)"
    "failed (env_of tg_only_reply None) (SendMessage j m x)"
    "fulfilled (env_of tg_only_reply None) (Reply m x)"
    "failed (env_of tg_all_rejected None) k"
    "failed (env_of tg_send_pending None) (EditMessageText m x)"
    "pending (env_of tg_send_pending None) (SendMessage j m x)" for k j m x
    by (simp_all add: fulfilled_def failed_def pending_def env_of_def tg_all_ok_def
          tg_edit_rejected_def tg_only_reply_def tg_all_rejected_def tg_send_pending_def
          await_def ok_def rejected_def)
  have n: "(42::int) \<noteq> 0" by simp
  \<comment> \<open>the edit succeeds\<close>
  from th [where ev = "env_of tg_all_ok None" and c = "click []" and msg = finalText and extra = None
      and s = fresh and n = 42,
      THEN conjunct2, THEN conjunct2, THEN conjunct2, THEN conjunct2, THEN conjunct2,
      THEN conjunct2, THEN conjunct1] c(1) t(1)
  have 1: "fst (sendFinalToUser (env_of tg_all_ok None) (click []) finalText None fresh) =
      Some True \<and>
    new_calls fresh (snd (sendFinalToUser (env_of tg_all_ok None) (click []) finalText None
      fresh)) = [EditMessageText finalText None]"
    by blast
  \<comment> \<open>the edit fails, the direct send succeeds\<close>
  from th [where ev = "env_of tg_edit_rejected None" and c = "click []" and msg = finalText and extra = None
      and s = fresh and n = 42,
      THEN conjunct2, THEN conjunct2, THEN conjunct2, THEN conjunct2, THEN conjunct2,
      THEN conjunct2, THEN conjunct2, THEN conjunct2, THEN conjunct1] c(1,2) t(2,3) n
  have 2: "fst (sendFinalToUser (env_of tg_edit_rejected None) (click []) finalText None
      fresh) = Some True \<and>
    last (new_calls fresh (snd (sendFinalToUser (env_of tg_edit_rejected None) (click [])
      finalText None fresh))) = SendMessage (ChatNum 42) finalText None \<and>
    Reply finalText None \<notin> set (new_calls fresh (snd (sendFinalToUser
      (env_of tg_edit_rejected None) (click []) finalText None fresh)))"
    by blast
  \<comment> \<open>edit and send fail, the reply succeeds\<close>
  have j3: "\<exists>j. chatId (click []) = Some j \<and>
          failed (env_of tg_only_reply None) (SendMessage (ChatNum j) finalText None)"
    using c(2) t(5) by blast
  from th [where ev = "env_of tg_only_reply None" and c = "click []" and msg = finalText and extra = None
      and s = fresh and n = 42,
      THEN conjunct2, THEN conjunct2, THEN conjunct2, THEN conjunct2, THEN conjunct2,
      THEN conjunct2, THEN conjunct2, THEN conjunct2, THEN conjunct2, THEN conjunct1] j3 t(4)
  have "last (new_calls fresh (snd (sendFinalToUser (env_of tg_only_reply None) (click [])
      finalText None fresh))) = Reply finalText None \<and>
    fst (sendFinalToUser (env_of tg_only_reply None) (click []) finalText None fresh) =
      (if fulfilled (env_of tg_only_reply None) (Reply finalText None) then Some True
       else if failed (env_of tg_only_reply None) (Reply finalText None) then Some False
       else None)"
    by blast
  moreover from th [where ev = "env_of tg_only_reply None" and c = "click []" and msg = finalText and extra = None
      and s = fresh and n = 42,
      THEN conjunct2, THEN conjunct2, THEN conjunct2, THEN conjunct2, THEN conjunct2,
      THEN conjunct2, THEN conjunct2, THEN conjunct1] c(2) t(4) n
  have "SendMessage (ChatNum 42) finalText None \<in> set (new_calls fresh (snd (sendFinalToUser
      (env_of tg_only_reply None) (click []) finalText None fresh)))"
    by blast
  ultimately have 3: "fst (sendFinalToUser (env_of tg_only_reply None) (click []) finalText
      None fresh) = Some True \<and>
    last (new_calls fresh (snd (sendFinalToUser (env_of tg_only_reply None) (click [])
      finalText None fresh))) = Reply finalText None \<and>
    SendMessage (ChatNum 42) finalText None \<in> set (new_calls fresh (snd (sendFinalToUser
      (env_of tg_only_reply None) (click []) finalText None fresh)))"
    using t(6) [of finalText None] by simp
  \<comment> \<open>every call fails\<close>
  have j4: "\<exists>j. chatId (click []) = Some j \<and>
          failed (env_of tg_all_rejected None) (SendMessage (ChatNum j) finalText None)"
    using c(2) t(7) by blast
  from th [where ev = "env_of tg_all_rejected None" and c = "click []" and msg = finalText and extra = None
      and s = fresh and n = 42,
      THEN conjunct2, THEN conjunct2, THEN conjunct2, THEN conjunct2, THEN conjunct2,
      THEN conjunct2, THEN conjunct2, THEN conjunct2, THEN conjunct2, THEN conjunct1] j4 t(7)
  have "fst (sendFinalToUser (env_of tg_all_rejected None) (click []) finalText None fresh) =
      (if fulfilled (env_of tg_all_rejected None) (Reply finalText None) then Some True
       else if failed (env_of tg_all_rejected None) (Reply finalText None) then Some False
       else None)"
    by blast
  then have 4: "fst (sendFinalToUser (env_of tg_all_rejected None) (click []) finalText None
      fresh) = Some False"
    using t(7) [of "Reply finalText None"]
      call_settles_excl(2) [of "env_of tg_all_rejected None" "Reply finalText None"]
    by simp
  with th [where ev = "env_of tg_all_rejected None" and c = "click []" and msg = finalText and extra = None
      and s = fresh and n = 42,
      THEN conjunct2, THEN conjunct2, THEN conjunct2, THEN conjunct2, THEN conjunct1]
  have r4b: "Reply finalText None \<in> set (new_calls fresh (snd (sendFinalToUser
      (env_of tg_all_rejected None) (click []) finalText None fresh)))"
    by blast
  \<comment> \<open>the direct send never settles\<close>
  have "new_calls fresh (snd (sendFinalToUser (env_of tg_send_pending None) (click [])
      finalText None fresh)) = snd (try_in_order (env_of tg_send_pending None)
        (attempts (click []) finalText None))"
    using th [where ev = "env_of tg_send_pending None" and c = "click []" and msg = finalText and extra = None
      and s = fresh and n = 42,
      THEN conjunct1]
    by (simp add: new_calls_def)
  then have 5: "new_calls fresh (snd (sendFinalToUser (env_of tg_send_pending None) (click [])
      finalText None fresh)) =
      [EditMessageText finalText None, SendMessage (ChatNum 42) finalText None]"
    by (simp add: attempts_def c try_failed try_pending t)
  with th [where ev = "env_of tg_send_pending None" and c = "click []" and msg = finalText and extra = None
      and s = fresh and n = 42,
      THEN conjunct2, THEN conjunct2, THEN conjunct2, THEN conjunct2, THEN conjunct2,
      THEN conjunct2, THEN conjunct2, THEN conjunct2, THEN conjunct2, THEN conjunct2,
      THEN conjunct2] t(9) [of "ChatNum 42" finalText None]
  have r5b: "fst (sendFinalToUser (env_of tg_send_pending None) (click []) finalText None
      fresh) = None"
    by simp
  \<comment> \<open>no message to edit\<close>
  from th [where ev = "env_of tg_all_ok None" and c = typed and msg = finalText and extra = None
      and s = fresh and n = 42,
      THEN conjunct2, THEN conjunct2, THEN conjunct2, THEN conjunct2, THEN conjunct2,
      THEN conjunct2, THEN conjunct2, THEN conjunct2, THEN conjunct1] c(3,4) t(1) n
  have 6: "fst (sendFinalToUser (env_of tg_all_ok None) typed finalText None fresh) =
      Some True \<and>
    last (new_calls fresh (snd (sendFinalToUser (env_of tg_all_ok None) typed finalText None
      fresh))) = SendMessage (ChatNum 42) finalText None"
    by blast
  \<comment> \<open>no message and no chat identifier\<close>
  from th [where ev = "env_of tg_all_ok None" and c = nowhere and msg = finalText and extra = None
      and s = fresh and n = 42,
      THEN conjunct2, THEN conjunct2, THEN conjunct2, THEN conjunct2, THEN conjunct2,
      THEN conjunct2, THEN conjunct2, THEN conjunct2, THEN conjunct2, THEN conjunct1] c(5,6)
  have "last (new_calls fresh (snd (sendFinalToUser (env_of tg_all_ok None) nowhere finalText
      None fresh))) = Reply finalText None \<and>
    fst (sendFinalToUser (env_of tg_all_ok None) nowhere finalText None fresh) =
      (if fulfilled (env_of tg_all_ok None) (Reply finalText None) then Some True
       else if failed (env_of tg_all_ok None) (Reply finalText None) then Some False
       else None)"
    by blast
  then have 7: "fst (sendFinalToUser (env_of tg_all_ok None) nowhere finalText None fresh) =
      Some True \<and>
    last (new_calls fresh (snd (sendFinalToUser (env_of tg_all_ok None) nowhere finalText None
      fresh))) = Reply finalText None"
    using t(1) [of "Reply finalText None"] by simp
  show ?thesis
    using c t(1) [of "EditMessageText finalText None"] t(2) [of finalText None]
      t(3) [of "ChatNum 42" finalText None] t(4) [of finalText None]
      t(5) [of "ChatNum 42" finalText None] t(6) [of finalText None]
      t(7) [of "Reply finalText None"] t(9) [of "ChatNum 42" finalText None]
      1 2 3 4 r4b 5 r5b 6 7
    by - (intro conjI; (elim conjE)?; assumption)
qed

text \<open>
  C3: the operator notification decides the fields \<open>status\<close> and \<open>frequency\<close> one by one.
  In the text that the booking handler sends to the operator, and in the text that
  \<open>notifyAdminInBackground\<close> builds, the state label is that of the store's status when the
  store returned a record that has one (not null, not empty) and that of the cached status
  otherwise, and the frequency label is chosen in the same way from the store's and the
  cached frequency, independently of the status. When the store is not configured, or
  \<open>getLead\<close> has no record, both labels are those of the cache.
\<close>

theorem operator_fields_per_field:
  "ctx_from c = Some u \<and> hasAdmin ev \<longrightarrow>
     new_calls s (book_notify ev c s) =
       [SendMessage (ChatEnv (ADMIN_CHAT_ID ev))
          (summary_lines
             (shown_name (or_str (Option.bind (store_record ev (from_id u)) lead_username)
                (from_username u)))
             (or_int (Option.bind (store_record ev (from_id u)) lead_user_id) (from_id u))
             (statusHuman (per_field (store_record ev (from_id u)) lead_status
                (mem_status (mem_or_empty (cache s) (from_id u)))))
             (freqHuman (per_field (store_record ev (from_id u)) lead_frequency
                (mem_frequency (mem_or_empty (cache s) (from_id u))))))
          None] \<and>
     new_calls s (snd (notifyAdminInBackground ev c s)) =
       [SendMessage (ChatEnv (ADMIN_CHAT_ID ev))
          (buildAdminText
             (or_str (or_str (Option.bind (store_record ev (from_id u)) lead_username)
                (from_username u)) None)
             (or_int (Option.bind (store_record ev (from_id u)) lead_user_id) (from_id u))
             (statusHuman (per_field (store_record ev (from_id u)) lead_status
                (mem_status (mem_or_empty (cache s) (from_id u)))))
             (freqHuman (per_field (store_record ev (from_id u)) lead_frequency
                (mem_frequency (mem_or_empty (cache s) (from_id u))))))
          None] \<and>
     (supabase ev = None \<or> store_record ev (from_id u) = None \<longrightarrow>
        new_calls s (book_notify ev c s) =
          [SendMessage (ChatEnv (ADMIN_CHAT_ID ev))
             (summary_lines (shown_name (from_username u)) (from_id u)
                (statusHuman (mem_status (mem_or_empty (cache s) (from_id u))))
                (freqHuman (mem_frequency (mem_or_empty (cache s) (from_id u)))))
             None])"
proof (intro impI conjI)
  assume h: "ctx_from c = Some u \<and> hasAdmin ev"
  show "new_calls s (book_notify ev c s) =
       [SendMessage (ChatEnv (ADMIN_CHAT_ID ev))
          (summary_lines
             (shown_name (or_str (Option.bind (store_record ev (from_id u)) lead_username)
                (from_username u)))
             (or_int (Option.bind (store_record ev (from_id u)) lead_user_id) (from_id u))
             (statusHuman (per_field (store_record ev (from_id u)) lead_status
                (mem_status (mem_or_empty (cache s) (from_id u)))))
             (freqHuman (per_field (store_record ev (from_id u)) lead_frequency
                (mem_frequency (mem_or_empty (cache s) (from_id u))))))
          None]"
    using h book_notify_calls [of c u ev s] by (simp add: new_calls_def)
  show "new_calls s (snd (notifyAdminInBackground ev c s)) =
       [SendMessage (ChatEnv (ADMIN_CHAT_ID ev))
          (buildAdminText
             (or_str (or_str (Option.bind (store_record ev (from_id u)) lead_username)
                (from_username u)) None)
             (or_int (Option.bind (store_record ev (from_id u)) lead_user_id) (from_id u))
             (statusHuman (per_field (store_record ev (from_id u)) lead_status
                (mem_status (mem_or_empty (cache s) (from_id u)))))
             (freqHuman (per_field (store_record ev (from_id u)) lead_frequency
                (mem_frequency (mem_or_empty (cache s) (from_id u))))))
          None]"
    using h notifyAdmin_calls [of c u ev s] by (simp add: new_calls_def)
  assume "supabase ev = None \<or> store_record ev (from_id u) = None"
  then have n: "store_record ev (from_id u) = None"
    using store_record_unconfigured [of ev "from_id u"] by blast
  show "new_calls s (book_notify ev c s) =
          [SendMessage (ChatEnv (ADMIN_CHAT_ID ev))
             (summary_lines (shown_name (from_username u)) (from_id u)
                (statusHuman (mem_status (mem_or_empty (cache s) (from_id u))))
                (freqHuman (mem_frequency (mem_or_empty (cache s) (from_id u)))))
             None]"
    using h book_notify_calls [of c u ev s]
    by (simp add: new_calls_def n per_field_def or_str_def truthy_str_def or_int_def)
qed

theorem operator_fields_per_field_witness:
  "ctx_from (click []) = Some alice \<and> hasAdmin (env_of tg_all_ok (Some store_anger)) \<and>
   new_calls warm (book_notify (env_of tg_all_ok (Some store_anger)) (click []) warm) =
     [SendMessage (ChatEnv (Some (ascii ''-100'')))
        (summary_lines (64 # ascii ''alice'') 42 COPY_anger_label FREQUENCY_daily) None] \<and>
   supabase (env_of tg_all_ok None) = None \<and>
   new_calls warm (book_notify (env_of tg_all_ok None) (click []) warm) =
     [SendMessage (ChatEnv (Some (ascii ''-100'')))
        (summary_lines (64 # ascii ''alice'') 42 COPY_anxiety_label FREQUENCY_daily) None]"
proof -
  have n: "shown_name (Some (ascii ''alice'')) = 64 # ascii ''alice''"
    by (simp add: shown_name_def ascii_def)
  have p: "per_field (Some \<lparr>lead_user_id = Some 42, lead_username = None,
               lead_status = Some (ascii ''anger''), lead_frequency = None\<rparr>) lead_status
             (Some (ascii ''anxiety'')) = Some (ascii ''anger'')"
    "per_field (Some \<lparr>lead_user_id = Some 42, lead_username = None,
               lead_status = Some (ascii ''anger''), lead_frequency = None\<rparr>) lead_frequency
             (Some (ascii ''daily'')) = Some (ascii ''daily'')"
    by (simp_all add: per_field_def ascii_def)
  from operator_fields_per_field [of "click []" alice "env_of tg_all_ok (Some store_anger)" warm]
  have 1: "new_calls warm (book_notify (env_of tg_all_ok (Some store_anger)) (click []) warm) =
     [SendMessage (ChatEnv (Some (ascii ''-100'')))
        (summary_lines (64 # ascii ''alice'') 42 COPY_anger_label FREQUENCY_daily) None]"
    by (simp add: click_alice env_of_fields store_record_anger warm_alice p n or_str_def
          truthy_str_def or_int_def statusHuman_known freqHuman_known)
  have "ctx_from (click []) = Some alice \<and> hasAdmin (env_of tg_all_ok None)"
    "supabase (env_of tg_all_ok None) = None"
    by (simp_all add: click_alice env_of_fields)
  with operator_fields_per_field [of "click []" alice "env_of tg_all_ok None" warm]
  have "new_calls warm (book_notify (env_of tg_all_ok None) (click []) warm) =
     [SendMessage (ChatEnv (ADMIN_CHAT_ID (env_of tg_all_ok None)))
        (summary_lines (shown_name (from_username alice)) (from_id alice)
           (statusHuman (mem_status (mem_or_empty (cache warm) (from_id alice))))
           (freqHuman (mem_frequency (mem_or_empty (cache warm) (from_id alice)))))
        None]"
    by blast
  then have 2: "new_calls warm (book_notify (env_of tg_all_ok None) (click []) warm) =
     [SendMessage (ChatEnv (Some (ascii ''-100'')))
        (summary_lines (64 # ascii ''alice'') 42 COPY_anxiety_label FREQUENCY_daily) None]"
    by (simp add: click_alice env_of_fields warm_alice n statusHuman_known freqHuman_known)
  from 1 2 show ?thesis
    by (simp add: click_alice env_of_fields)
qed

text \<open>
  C4: the operator summary of a completed booking. \<open>buildAdminText\<close> gives the shape of the
  claim: for alice, with the labels of anxiety and daily, the four lines (title, user and
  identifier, state, frequency) and then the profile link made from her username. The
  booking handler does not call it: the text it sends to the operator for the same user
  has the same four lines and no profile line.
\<close>

theorem booking_summary_without_profile_link:
  "new_calls warm (snd (on_book (env_of tg_all_ok None) (click []) warm)) =
     [AnswerCbQuery msg_accepted, EditMessageText finalText None,
      SendMessage (ChatEnv (Some (ascii ''-100'')))
        (summary_lines (64 # ascii ''alice'') 42 COPY_anxiety_label FREQUENCY_daily) None] \<and>
   fst (on_book (env_of tg_all_ok None) (click []) warm) = Completed \<and>
   buildAdminText (Some (ascii ''alice'')) 42 COPY_anxiety_label FREQUENCY_daily =
     summary_lines (64 # ascii ''alice'') 42 COPY_anxiety_label FREQUENCY_daily @
     profile_line (ascii ''alice'') \<and>
   profile_line (ascii ''alice'') =
     [1055, 1088, 1086, 1092, 1080, 1083, 1100, 58, 32] @ ascii ''https://t.me/alice'' @ [10]"
proof -
  have n: "shown_name (Some (ascii ''alice'')) = 64 # ascii ''alice''"
    by (simp add: shown_name_def ascii_def)
  have s: "sendFinalToUser (env_of tg_all_ok None) (click []) finalText None
             (warm\<lparr>calls := [AnswerCbQuery msg_accepted]\<rparr>) =
           (Some True, warm\<lparr>calls := [AnswerCbQuery msg_accepted,
                                        EditMessageText finalText None]\<rparr>)"
    by (simp add: sendFinalToUser_def do_call_def click_alice truthy_num_def env_of_fields
          tg_all_ok_def await_def ok_def warm_def)
  have b: "calls (book_notify (env_of tg_all_ok None) (click [])
             (warm\<lparr>calls := [AnswerCbQuery msg_accepted, EditMessageText finalText None]\<rparr>)) =
           [AnswerCbQuery msg_accepted, EditMessageText finalText None,
            SendMessage (ChatEnv (Some (ascii ''-100'')))
              (summary_lines (64 # ascii ''alice'') 42 COPY_anxiety_label FREQUENCY_daily) None]"
    using book_notify_calls [of "click []" alice "env_of tg_all_ok None"
        "warm\<lparr>calls := [AnswerCbQuery msg_accepted, EditMessageText finalText None]\<rparr>"]
    by (simp add: click_alice env_of_fields store_record_unconfigured per_field_def or_str_def
          truthy_str_def or_int_def n statusHuman_known freqHuman_known warm_alice)
  have o: "on_book (env_of tg_all_ok None) (click []) warm =
      (Completed, book_notify (env_of tg_all_ok None) (click [])
         (warm\<lparr>calls := [AnswerCbQuery msg_accepted, EditMessageText finalText None]\<rparr>))"
    using s
    by (simp add: on_book_def do_call_def env_of_fields tg_all_ok_def ok_def
          detached_upsertLead warm_def)
  have 1: "new_calls warm (snd (on_book (env_of tg_all_ok None) (click []) warm)) =
     [AnswerCbQuery msg_accepted, EditMessageText finalText None,
      SendMessage (ChatEnv (Some (ascii ''-100'')))
        (summary_lines (64 # ascii ''alice'') 42 COPY_anxiety_label FREQUENCY_daily) None]"
    by (simp add: o b new_calls_def) (simp add: warm_def)
  have 2: "buildAdminText (Some (ascii ''alice'')) 42 COPY_anxiety_label FREQUENCY_daily =
     summary_lines (64 # ascii ''alice'') 42 COPY_anxiety_label FREQUENCY_daily @
     profile_line (ascii ''alice'')"
    by (simp add: buildAdminText_shape n) (simp add: ascii_def)
  have 3: "profile_line (ascii ''alice'') =
     [1055, 1088, 1086, 1092, 1080, 1083, 1100, 58, 32] @ ascii ''https://t.me/alice'' @ [10]"
    by (simp add: profile_line_def ascii_def)
  from 1 2 3 o show ?thesis by simp
qed

text \<open>
  C5: the reply of the frequency handler is chosen by the frequency alone. Whatever the
  user, the cache, the store and the transport are, the handler makes no reply at all (its
  acknowledgement threw, or the update has no sender) or exactly one; for \<open>rare\<close> that
  reply carries the softer offer, for \<open>weekly\<close> and for \<open>daily\<close> one and the same regular
  offer, which is a different text, and in all three cases the keyboard is the single
  booking button.
\<close>

theorem offer_by_frequency:
  "(telegram ev (AnswerCbQuery msg_ok) = Returns p \<and> ctx_from c = Some u \<longrightarrow>
      (ctx_match1 c = ascii ''rare'' \<longrightarrow>
         replies (new_calls s (snd (on_freq ev c s))) =
           [(COPY_offerRare, Some [[CallbackBtn BTN_book (ascii ''book'')]])]) \<and>
      (ctx_match1 c = ascii ''weekly'' \<longrightarrow>
         replies (new_calls s (snd (on_freq ev c s))) =
           [(COPY_offerRegular, Some [[CallbackBtn BTN_book (ascii ''book'')]])]) \<and>
      (ctx_match1 c = ascii ''daily'' \<longrightarrow>
         replies (new_calls s (snd (on_freq ev c s))) =
           [(COPY_offerRegular, Some [[CallbackBtn BTN_book (ascii ''book'')]])])) \<and>
   ((\<exists>e. telegram ev (AnswerCbQuery msg_ok) = Throws e) \<or> ctx_from c = None \<longrightarrow>
      replies (new_calls s (snd (on_freq ev c s))) = []) \<and>
   COPY_offerRare \<noteq> COPY_offerRegular"
proof (intro conjI impI)
  show "COPY_offerRare \<noteq> COPY_offerRegular"
    by (simp add: COPY_offerRare_def COPY_offerRegular_def)
  show "replies (new_calls s (snd (on_freq ev c s))) = []"
    if "(\<exists>e. telegram ev (AnswerCbQuery msg_ok) = Throws e) \<or> ctx_from c = None"
    using on_freq_calls_early [OF that, of s] by (simp add: new_calls_def)
next
  assume h: "telegram ev (AnswerCbQuery msg_ok) = Returns p \<and> ctx_from c = Some u"
  then have k: "new_calls s (snd (on_freq ev c s)) =
     [AnswerCbQuery msg_ok,
      Reply (if ctx_match1 c = ascii ''rare'' then COPY_offerRare else COPY_offerRegular)
        (Some [[CallbackBtn BTN_book (ascii ''book'')]])]"
    using on_freq_calls [of ev p c u s] by (simp add: new_calls_def)
  show "replies (new_calls s (snd (on_freq ev c s))) =
           [(COPY_offerRare, Some [[CallbackBtn BTN_book (ascii ''book'')]])]"
    if "ctx_match1 c = ascii ''rare''"
    using k that by simp
  show "replies (new_calls s (snd (on_freq ev c s))) =
           [(COPY_offerRegular, Some [[CallbackBtn BTN_book (ascii ''book'')]])]"
    if "ctx_match1 c = ascii ''weekly''"
    using k that by (simp add: ascii_def)
  show "replies (new_calls s (snd (on_freq ev c s))) =
           [(COPY_offerRegular, Some [[CallbackBtn BTN_book (ascii ''book'')]])]"
    if "ctx_match1 c = ascii ''daily''"
    using k that by (simp add: ascii_def)
qed

theorem offer_by_frequency_witness:
  "telegram (env_of tg_all_ok None) (AnswerCbQuery msg_ok) = ok \<and>
   ctx_from (click (ascii ''rare'')) = Some alice \<and>
   replies (new_calls fresh (snd (on_freq (env_of tg_all_ok None) (click (ascii ''rare''))
     fresh))) = [(COPY_offerRare, Some [[CallbackBtn BTN_book (ascii ''book'')]])] \<and>
   replies (new_calls warm (snd (on_freq (env_of tg_all_ok None) (click (ascii ''weekly''))
     warm))) = [(COPY_offerRegular, Some [[CallbackBtn BTN_book (ascii ''book'')]])] \<and>
   replies (new_calls warm (snd (on_freq (env_of tg_reply_rejected (Some store_silent))
     (click (ascii ''daily'')) warm))) =
     [(COPY_offerRegular, Some [[CallbackBtn BTN_book (ascii ''book'')]])] \<and>
   telegram (env_of tg_ack_throws None) (AnswerCbQuery msg_ok) = Throws TransportError \<and>
   replies (new_calls fresh (snd (on_freq (env_of tg_ack_throws None) (click (ascii ''rare''))
     fresh))) = []"
proof -
  have a: "telegram (env_of tg_all_ok None) (AnswerCbQuery msg_ok) =
      Returns (Some (0, Fulfilled ()))"
    "telegram (env_of tg_reply_rejected (Some store_silent)) (AnswerCbQuery msg_ok) =
      Returns (Some (0, Fulfilled ()))"
    "telegram (env_of tg_ack_throws None) (AnswerCbQuery msg_ok) = Throws TransportError"
    by (simp_all add: env_of_def tg_all_ok_def tg_reply_rejected_def tg_ack_throws_def ok_def)
  have f: "ctx_from (click m) = Some alice" for m
    by (simp add: click_def)
  have m: "ctx_match1 (click m) = m" for m
    by (simp add: click_def)
  from offer_by_frequency [of "env_of tg_all_ok None" "Some (0, Fulfilled ())"
      "click (ascii ''rare'')" alice fresh]
    offer_by_frequency [of "env_of tg_all_ok None" "Some (0, Fulfilled ())"
      "click (ascii ''weekly'')" alice warm]
    offer_by_frequency [of "env_of tg_reply_rejected (Some store_silent)" "Some (0, Fulfilled ())"
      "click (ascii ''daily'')" alice warm]
    offer_by_frequency [of "env_of tg_ack_throws None" _ "click (ascii ''rare'')" _ fresh]
    a f
  show ?thesis by (simp add: m ok_def)
qed

text \<open>
  C6: the store adapter never throws out of its boundary. Whatever the client does
  (no client at all, a synchronous throw, a rejection, a promise that never settles or
  settles late, an error response, no row), the promise of \<open>upsertLead\<close> is fulfilled with
  no value and the promise of \<open>getLead\<close> is fulfilled; on a timeout, on an error and
  when no row is found, \<open>getLead\<close> gives \<^verbatim>\<open>null\<close>. Neither promise is ever rejected.
\<close>

theorem store_adapter_never_throws:
  "(\<exists>t. upsertLead sb c pt = Some (t, Fulfilled ())) \<and>
   (\<exists>t v. getLead sb uid = Some (t, Fulfilled v)) \<and>
   (sb = None \<longrightarrow> getLead sb uid = Some (0, Fulfilled None)) \<and>
   (\<forall>cl q. sb = Some cl \<and> select_query cl uid = Returns q \<and>
            (q = None \<or> (\<exists>t r. q = Some (t, r) \<and> 4000 < t)) \<longrightarrow>
            getLead sb uid = Some (4000, Fulfilled None)) \<and>
   (\<forall>cl. sb = Some cl \<and>
          ((\<exists>e. select_query cl uid = Throws e) \<or>
           (\<exists>t e. select_query cl uid = Returns (Some (t, Rejected e))) \<or>
           (\<exists>t. select_query cl uid = Returns (Some (t, Fulfilled None))) \<or>
           (\<exists>t res. select_query cl uid = Returns (Some (t, Fulfilled (Some res))) \<and>
                     (res_error res \<or> res_data res = None))) \<longrightarrow>
          (\<exists>t. getLead sb uid = Some (t, Fulfilled None)))"
proof (intro conjI allI impI)
  show "\<exists>t. upsertLead sb c pt = Some (t, Fulfilled ())"
    using upsertLead_fulfilled [of sb c pt] by blast
  show "\<exists>t v. getLead sb uid = Some (t, Fulfilled v)"
    using getLead_fulfilled [of sb uid] by blast
  show "getLead sb uid = Some (0, Fulfilled None)" if "sb = None"
    using that by (simp add: getLead_def)
next
  fix cl q
  assume "sb = Some cl \<and> select_query cl uid = Returns q \<and>
          (q = None \<or> (\<exists>t r. q = Some (t, r) \<and> 4000 < t))"
  then show "getLead sb uid = Some (4000, Fulfilled None)"
    using getLead_timeout [of cl uid q] by blast
next
  fix cl
  assume a: "sb = Some cl \<and>
          ((\<exists>e. select_query cl uid = Throws e) \<or>
           (\<exists>t e. select_query cl uid = Returns (Some (t, Rejected e))) \<or>
           (\<exists>t. select_query cl uid = Returns (Some (t, Fulfilled None))) \<or>
           (\<exists>t res. select_query cl uid = Returns (Some (t, Fulfilled (Some res))) \<and>
                     (res_error res \<or> res_data res = None)))"
  then have "\<exists>e. select_query cl uid = Throws e \<or>
           (\<exists>t e'. select_query cl uid = Returns (Some (t, Rejected e'))) \<or>
           (\<exists>t. select_query cl uid = Returns (Some (t, Fulfilled None))) \<or>
           (\<exists>t res. select_query cl uid = Returns (Some (t, Fulfilled (Some res))) \<and>
                     (res_error res \<or> res_data res = None))"
    by blast
  then obtain e where "select_query cl uid = Throws e \<or>
           (\<exists>t e'. select_query cl uid = Returns (Some (t, Rejected e'))) \<or>
           (\<exists>t. select_query cl uid = Returns (Some (t, Fulfilled None))) \<or>
           (\<exists>t res. select_query cl uid = Returns (Some (t, Fulfilled (Some res))) \<and>
                     (res_error res \<or> res_data res = None))"
    by blast
  from getLead_no_data [OF this] a show "\<exists>t. getLead sb uid = Some (t, Fulfilled None)"
    by simp
qed

theorem store_adapter_never_throws_witness:
  "getLead None 42 = Some (0, Fulfilled None) \<and>
   select_query store_silent 42 = Returns None \<and>
   getLead (Some store_silent) 42 = Some (4000, Fulfilled None) \<and>
   select_query store_slow 42 \<noteq> Returns None \<and>
   getLead (Some store_slow) 42 = Some (4000, Fulfilled None) \<and>
   select_query store_broken 42 = Returns (Some (30, Rejected StoreError)) \<and>
   (\<exists>t. getLead (Some store_broken) 42 = Some (t, Fulfilled None)) \<and>
   res_error \<lparr>res_error = True, res_data = None\<rparr> \<and>
   (\<exists>t. getLead (Some store_error) 42 = Some (t, Fulfilled None)) \<and>
   (\<exists>t. getLead (Some store_empty) 42 = Some (t, Fulfilled None)) \<and>
   upsert_query store_broken (userMeta (click []), \<lparr>p_status = None, p_frequency = None,
       p_last_step = None\<rparr>) = Throws StoreError \<and>
   (\<exists>t. upsertLead (Some store_broken) (click [])
           \<lparr>p_status = None, p_frequency = None, p_last_step = None\<rparr> = Some (t, Fulfilled ()))"
proof -
  note th = store_adapter_never_throws
  have 1: "getLead None 42 = Some (0, Fulfilled None)"
    using th [of None _ _ 42] by blast
  have s: "select_query store_silent 42 = Returns None"
    by (simp add: store_silent_def)
  have 2: "getLead (Some store_silent) 42 = Some (4000, Fulfilled None)"
    using th [of "Some store_silent" _ _ 42] s by blast
  have l: "select_query store_slow 42 = Returns (Some (5000, Fulfilled (Some \<lparr>res_error = False,
             res_data = Some \<lparr>lead_user_id = Some 42, lead_username = None,
               lead_status = None, lead_frequency = None\<rparr>\<rparr>)))"
    by (simp add: store_slow_def)
  have 3: "getLead (Some store_slow) 42 = Some (4000, Fulfilled None)"
    using th [of "Some store_slow" _ _ 42] l by auto
  have b: "select_query store_broken 42 = Returns (Some (30, Rejected StoreError))"
    by (simp add: store_broken_def)
  have 4: "\<exists>t. getLead (Some store_broken) 42 = Some (t, Fulfilled None)"
    using th [of "Some store_broken" _ _ 42] b by blast
  have e: "select_query store_error 42 =
             Returns (Some (30, Fulfilled (Some \<lparr>res_error = True, res_data = None\<rparr>)))"
    by (simp add: store_error_def)
  have 5: "\<exists>t. getLead (Some store_error) 42 = Some (t, Fulfilled None)"
    using th [of "Some store_error" _ _ 42] e by force
  have n: "select_query store_empty 42 =
             Returns (Some (30, Fulfilled (Some \<lparr>res_error = False, res_data = None\<rparr>)))"
    by (simp add: store_empty_def)
  have 6: "\<exists>t. getLead (Some store_empty) 42 = Some (t, Fulfilled None)"
    using th [of "Some store_empty" _ _ 42] n by force
  have u: "upsert_query store_broken (userMeta (click []), \<lparr>p_status = None, p_frequency = None,
       p_last_step = None\<rparr>) = Throws StoreError"
    by (simp add: store_broken_def)
  have 7: "\<exists>t. upsertLead (Some store_broken) (click [])
           \<lparr>p_status = None, p_frequency = None, p_last_step = None\<rparr> = Some (t, Fulfilled ())"
    using th [of "Some store_broken" "click []"
                 "\<lparr>p_status = None, p_frequency = None, p_last_step = None\<rparr>"] by blast
  from 1 s 2 l 3 b 4 5 6 u 7 show ?thesis by simp
qed

text \<open>
  C7: once the state handler has made its cache update (its acknowledgement did not throw
  and the update carries a sender), the cache entry of that user has \<open>status\<close> equal to
  exactly the chosen state. This holds for every behaviour of the store (not configured,
  silent, failing) and of Telegram, and whatever becomes of the handler afterwards.
\<close>

theorem state_choice_cached:
  "telegram ev (AnswerCbQuery msg_ok) = Returns p \<Longrightarrow> ctx_from c = Some u \<Longrightarrow>
   map_option mem_status (cache (snd (on_state ev c s)) (from_id u)) =
     Some (Some (ctx_match1 c))"
  by (simp add: on_state_cache state_body_cache)

theorem state_choice_cached_witness:
  "telegram (env_of tg_all_rejected (Some store_silent)) (AnswerCbQuery msg_ok) = rejected \<and>
   ctx_from (click (ascii ''anger'')) = Some alice \<and>
   map_option mem_status
     (cache (snd (on_state (env_of tg_all_rejected (Some store_silent))
        (click (ascii ''anger'')) warm)) 42) = Some (Some (ascii ''anger'')) \<and>
   map_option mem_status
     (cache (snd (on_state (env_of tg_all_ok None) (click (ascii ''apathy'')) fresh)) 42) =
     Some (Some (ascii ''apathy''))"
proof -
  have a: "telegram (env_of tg_all_rejected (Some store_silent)) (AnswerCbQuery msg_ok) =
      Returns (Some (0, Rejected TransportError))"
    by (simp add: env_of_def tg_all_rejected_def rejected_def)
  have b: "telegram (env_of tg_all_ok None) (AnswerCbQuery msg_ok) =
      Returns (Some (0, Fulfilled ()))"
    by (simp add: env_of_def tg_all_ok_def ok_def)
  have f: "ctx_from (click m) = Some alice" for m
    by (simp add: click_def)
  have i: "from_id alice = 42"
    by (simp add: alice_def)
  have m: "ctx_match1 (click m) = m" for m
    by (simp add: click_def)
  from state_choice_cached [OF a f, of "ascii ''anger''" warm]
    state_choice_cached [OF b f, of "ascii ''apathy''" fresh] a f
  show ?thesis by (simp add: i m rejected_def)
qed

text \<open>
  C8: handling the same frequency selection twice leaves the cache as handling it once
  does: the second \<^verbatim>\<open>cache.set\<close> writes the entry that is already there. This holds when
  both events meet the same environment and, once the first event has reached its cache
  update, for any environment of the second.
\<close>

theorem freq_twice_same_cache:
  "cache (snd (on_freq ev c (snd (on_freq ev c s)))) = cache (snd (on_freq ev c s)) \<and>
   (telegram ev (AnswerCbQuery msg_ok) = Returns p \<longrightarrow>
      cache (snd (on_freq ev' c (snd (on_freq ev c s)))) = cache (snd (on_freq ev c s)))"
  by (auto simp: on_freq_cache mem_or_empty_def split: call.splits option.splits)

theorem freq_twice_same_cache_witness:
  "telegram (env_of tg_all_ok None) (AnswerCbQuery msg_ok) = ok \<and>
   cache (snd (on_freq (env_of tg_ack_throws (Some store_silent)) (click (ascii ''weekly''))
     (snd (on_freq (env_of tg_all_ok None) (click (ascii ''weekly'')) warm)))) =
   cache (snd (on_freq (env_of tg_all_ok None) (click (ascii ''weekly'')) warm)) \<and>
   cache (snd (on_freq (env_of tg_all_ok None) (click (ascii ''weekly'')) warm)) 42 =
     Some \<lparr>mem_status = Some (ascii ''anxiety''), mem_frequency = Some (ascii ''weekly'')\<rparr>"
proof -
  have a: "telegram (env_of tg_all_ok None) (AnswerCbQuery msg_ok) =
      Returns (Some (0, Fulfilled ()))"
    by (simp add: env_of_def tg_all_ok_def ok_def)
  have v: "cache (snd (on_freq (env_of tg_all_ok None) (click (ascii ''weekly'')) warm)) 42 =
     Some \<lparr>mem_status = Some (ascii ''anxiety''), mem_frequency = Some (ascii ''weekly'')\<rparr>"
    by (simp add: on_freq_cache a click_def alice_def warm_def mem_or_empty_def)
  from freq_twice_same_cache [of "env_of tg_all_ok None" "click (ascii ''weekly'')" warm
      "Some (0, Fulfilled ())" "env_of tg_ack_throws (Some store_silent)"] a v
  show ?thesis by (simp add: ok_def)
qed

text \<open>
  C9: a cache write is a shallow merge. The frequency handler leaves the cached status of
  every user as it was and the state handler leaves the cached frequency as it was; when
  the write is made, the entry of the sender is the old entry (an empty one if there was
  none) with the one field replaced, and the entries of all other users are untouched.
\<close>

theorem cache_write_merges:
  "mem_status (mem_or_empty (cache (snd (on_freq ev c s))) k) =
     mem_status (mem_or_empty (cache s) k) \<and>
   mem_frequency (mem_or_empty (cache (snd (on_state ev c s))) k) =
     mem_frequency (mem_or_empty (cache s) k) \<and>
   (ctx_from c = Some u \<and> telegram ev (AnswerCbQuery msg_ok) = Returns p \<longrightarrow>
      cache (snd (on_freq ev c s)) (from_id u) =
        Some ((mem_or_empty (cache s) (from_id u))\<lparr>mem_frequency := Some (ctx_match1 c)\<rparr>) \<and>
      cache (snd (on_state ev c s)) (from_id u) =
        Some ((mem_or_empty (cache s) (from_id u))\<lparr>mem_status := Some (ctx_match1 c)\<rparr>)) \<and>
   (ctx_from c = Some u \<and> k \<noteq> from_id u \<longrightarrow>
      cache (snd (on_freq ev c s)) k = cache s k \<and>
      cache (snd (on_state ev c s)) k = cache s k)"
  by (auto simp: on_freq_cache on_state_cache state_body_cache mem_or_empty_def
        split: call.splits option.splits)

theorem cache_write_merges_witness:
  "ctx_from (click (ascii ''rare'')) = Some alice \<and>
   telegram (env_of tg_all_ok None) (AnswerCbQuery msg_ok) = ok \<and>
   cache (snd (on_freq (env_of tg_all_ok None) (click (ascii ''rare'')) warm)) 42 =
     Some \<lparr>mem_status = Some (ascii ''anxiety''), mem_frequency = Some (ascii ''rare'')\<rparr> \<and>
   cache (snd (on_state (env_of tg_all_ok None) (click (ascii ''anger'')) warm)) 42 =
     Some \<lparr>mem_status = Some (ascii ''anger''), mem_frequency = Some (ascii ''daily'')\<rparr> \<and>
   cache (snd (on_freq (env_of tg_all_ok None) (click (ascii ''rare'')) fresh)) 42 =
     Some \<lparr>mem_status = None, mem_frequency = Some (ascii ''rare'')\<rparr> \<and>
   (7::int) \<noteq> from_id alice \<and>
   cache (snd (on_freq (env_of tg_all_ok None) (click (ascii ''rare'')) warm)) 7 = None"
proof -
  have a: "telegram (env_of tg_all_ok None) (AnswerCbQuery msg_ok) =
      Returns (Some (0, Fulfilled ()))"
    by (simp add: env_of_def tg_all_ok_def ok_def)
  have f: "ctx_from (click m) = Some alice" for m
    by (simp add: click_def)
  have m: "ctx_match1 (click m) = m" for m
    by (simp add: click_def)
  have i: "from_id alice = 42"
    by (simp add: alice_def)
  have w: "mem_or_empty (cache warm) 42 =
      \<lparr>mem_status = Some (ascii ''anxiety''), mem_frequency = Some (ascii ''daily'')\<rparr>"
    "mem_or_empty (cache fresh) 42 = \<lparr>mem_status = None, mem_frequency = None\<rparr>"
    "cache warm 7 = None"
    by (simp_all add: mem_or_empty_def warm_def fresh_def)
  from cache_write_merges [of "env_of tg_all_ok None" "click (ascii ''rare'')" warm 7 alice
      "Some (0, Fulfilled ())"]
    cache_write_merges [of "env_of tg_all_ok None" "click (ascii ''anger'')" warm 7 alice
      "Some (0, Fulfilled ())"]
    cache_write_merges [of "env_of tg_all_ok None" "click (ascii ''rare'')" fresh 7 alice
      "Some (0, Fulfilled ())"]
    a f
  show ?thesis by (simp add: i m w ok_def)
qed


end
